theory Spec2Isabelle
  imports Complex_Main "HOL-Library.Option_ord" "HOL-Library.Char_ord" "HOL-Library.List_Lexorder"
begin

section \<open>JavaScript values\<close>

text \<open>
  Amounts, quantities and prices are JavaScript numbers, that is IEEE-754 doubles. A
  finite double is modelled by its rational value, and \<open>*\<close>, \<open>+\<close> and \<open>-\<close> on amounts
  round the exact result to the nearest double (\<open>js_mul\<close>, \<open>js_add\<close>, \<open>js_sub\<close> below).
  NaN, the infinities and the sign of zero are outside this model, except in
  \<open>Math_ceil\<close> / \<open>js_div\<close>, where a division by zero is the whole question.
  The sums and the average that the database server computes in the analytics are
  modelled exactly. Identifiers, page numbers and clock readings are integers. A key of
  an object that is missing (\<open>undefined\<close>) or \<open>null\<close> is \<open>None\<close>.
\<close>

subsection \<open>Rounding to the nearest double\<close>

text \<open>
  A positive double is \<open>m \<times> 2\<^sup>e\<close> with an integer \<open>m < 2\<^sup>5\<^sup>3\<close> and \<open>e \<ge> -1074\<close>; it
  is normal when \<open>m \<ge> 2\<^sup>5\<^sup>2\<close>. \<open>norm_up\<close> and \<open>norm_down\<close> bring a positive rational
  \<open>a \<times> 2\<^sup>e\<close> to the exponent of its double: the first halves \<open>a\<close> while it is
  \<open>2\<^sup>5\<^sup>3\<close> or more, the second doubles it while it is below \<open>2\<^sup>5\<^sup>2\<close> and the
  exponent is above that of the subnormal numbers.
\<close>

function norm_up :: "rat \<Rightarrow> int \<Rightarrow> rat \<times> int" where
  "norm_up a e = (if 2 ^ 53 \<le> a then norm_up (a / 2) (e + 1) else (a, e))"
  by pat_completeness auto
termination
proof (relation "measure (\<lambda>(a, e). nat \<lfloor>a\<rfloor>)")
  show "wf (measure (\<lambda>(a, e). nat \<lfloor>a\<rfloor>))" by simp
next
  fix a :: rat and e :: int
  assume h: "2 ^ 53 \<le> a"
  then have "a / 2 \<le> a - 1" by simp
  then have "\<lfloor>a / 2\<rfloor> \<le> \<lfloor>a - 1\<rfloor>" by (rule floor_mono)
  moreover have "0 < \<lfloor>a\<rfloor>"
    using h by (simp add: floor_less_iff not_less[symmetric] less_floor_iff)
  ultimately show "((a / 2, e + 1), (a, e)) \<in> measure (\<lambda>(a, e). nat \<lfloor>a\<rfloor>)"
    by simp
qed

function norm_down :: "rat \<Rightarrow> int \<Rightarrow> rat \<times> int" where
  "norm_down a e =
     (if a < 2 ^ 52 \<and> - 1074 < e then norm_down (a * 2) (e - 1) else (a, e))"
  by pat_completeness auto
termination
  by (relation "measure (\<lambda>(a, e). nat (e + 1074))") auto

declare norm_up.simps [simp del] norm_down.simps [simp del]

text \<open>The nearest integer, a tie going to the even one.\<close>

definition round_half_even :: "rat \<Rightarrow> int" where
  "round_half_even a =
     (let f = \<lfloor>a\<rfloor>; r = a - of_int f
      in if r < 1 / 2 then f else if 1 / 2 < r then f + 1 else if even f then f else f + 1)"

definition pow2 :: "int \<Rightarrow> rat" where
  "pow2 e = (if 0 \<le> e then 2 ^ nat e else 1 / 2 ^ nat (- e))"

text \<open>
  Round to nearest, ties to even, with gradual underflow. A result beyond the largest
  double, which is \<open>Infinity\<close> in JavaScript, is outside the model.
\<close>

definition round_double :: "rat \<Rightarrow> rat" where
  "round_double x =
     (if x = 0 then 0
      else (let (a, e) = norm_up \<bar>x\<bar> 0;
                (a', e') = norm_down a e
            in sgn x * of_int (round_half_even a') * pow2 e'))"

definition js_add :: "rat \<Rightarrow> rat \<Rightarrow> rat" where
  "js_add a b = round_double (a + b)"

definition js_sub :: "rat \<Rightarrow> rat \<Rightarrow> rat" where
  "js_sub a b = round_double (a - b)"

definition js_mul :: "rat \<Rightarrow> rat \<Rightarrow> rat" where
  "js_mul a b = round_double (a * b)"

subsection \<open>Identifiers, dates and missing values\<close>

datatype ObjectId = ObjectId nat

text \<open>A valid \<open>Date\<close> object, as milliseconds since the epoch. An object is always truthy.\<close>

datatype Date = Date int

fun date_ms :: "Date \<Rightarrow> int" where
  "date_ms (Date t) = t"

text \<open>\<open>v || d\<close> for a number \<open>v\<close> that may be missing: \<open>undefined\<close>, \<open>null\<close> and \<open>0\<close> are falsy.\<close>

definition num_or :: "'a::zero option \<Rightarrow> 'a \<Rightarrow> 'a" where
  "num_or v d = (case v of None \<Rightarrow> d | Some x \<Rightarrow> if x = 0 then d else x)"

text \<open>\<open>v || null\<close> for a number.\<close>

definition num_or_null :: "'a::zero option \<Rightarrow> 'a option" where
  "num_or_null v = (case v of None \<Rightarrow> None | Some x \<Rightarrow> if x = 0 then None else Some x)"

text \<open>\<open>v || d\<close> for a string: the empty string is falsy.\<close>

definition str_or :: "string option \<Rightarrow> string \<Rightarrow> string" where
  "str_or v d = (case v of None \<Rightarrow> d | Some x \<Rightarrow> if x = [] then d else x)"

definition str_or_null :: "string option \<Rightarrow> string option" where
  "str_or_null v = (case v of None \<Rightarrow> None | Some x \<Rightarrow> if x = [] then None else Some x)"

text \<open>\<open>v || d\<close> for an object (an array, a \<open>Date\<close>, an \<open>ObjectId\<close>): every object is truthy.\<close>

definition obj_or :: "'a option \<Rightarrow> 'a \<Rightarrow> 'a" where
  "obj_or v d = (case v of None \<Rightarrow> d | Some x \<Rightarrow> x)"

definition obj_or_null :: "'a option \<Rightarrow> 'a option" where
  "obj_or_null v = (case v of None \<Rightarrow> None | Some x \<Rightarrow> Some x)"

section \<open>SaleItem (models/SaleItem.js) and the items of a sale\<close>

text \<open>
  An item of \<open>saleItems\<close> is either a plain object, as it arrives in a request body or
  as \<open>addItem\<close> builds it, or an instance of class \<open>SaleItem\<close>, which has a
  \<open>toDocument\<close> method. A plain item carries numeric \<open>quantity\<close> and \<open>unitPrice\<close>;
  its \<open>subTotal\<close> may be missing.
\<close>

record SaleItemObj =
  io_mysqlId :: "int option"
  io_productId :: "int option"
  io_productName :: "string option"
  io_category :: "string option"
  io_quantity :: rat
  io_unitPrice :: rat
  io_subTotal :: "rat option"

record SaleItem =
  si_mysqlId :: "int option"
  si_productId :: "int option"
  si_productName :: string
  si_category :: string
  si_quantity :: rat
  si_unitPrice :: rat
  si_subTotal :: rat

definition SaleItem_toDocument :: "SaleItem \<Rightarrow> SaleItemObj" where
  "SaleItem_toDocument i =
     \<lparr> io_mysqlId = si_mysqlId i,
       io_productId = si_productId i,
       io_productName = Some (si_productName i),
       io_category = Some (si_category i),
       io_quantity = si_quantity i,
       io_unitPrice = si_unitPrice i,
       io_subTotal = Some (si_subTotal i) \<rparr>"

datatype Item = Plain SaleItemObj | Instance SaleItem

fun item_subTotal :: "Item \<Rightarrow> rat option" where
  "item_subTotal (Plain i) = io_subTotal i"
| "item_subTotal (Instance i) = Some (si_subTotal i)"

fun item_quantity :: "Item \<Rightarrow> rat" where
  "item_quantity (Plain i) = io_quantity i"
| "item_quantity (Instance i) = si_quantity i"

fun item_unitPrice :: "Item \<Rightarrow> rat" where
  "item_unitPrice (Plain i) = io_unitPrice i"
| "item_unitPrice (Instance i) = si_unitPrice i"

text \<open>\<open>typeof item.toDocument === 'function' ? item.toDocument() : item\<close>\<close>

fun item_toDocument :: "Item \<Rightarrow> Item" where
  "item_toDocument (Instance i) = Plain (SaleItem_toDocument i)"
| "item_toDocument (Plain i) = Plain i"

section \<open>Sale (models/Sale.js)\<close>

text \<open>
  \<open>SaleObj\<close> is a plain object with the keys of a sale, each possibly missing: the
  \<open>data\<close> argument of the constructor and of \<open>Sale.create\<close>, and a document of the
  \<open>sales\<close> collection. Its \<open>o_id\<close> is the key \<open>id\<close> of constructor data and the key
  \<open>_id\<close> of a document. \<open>Sale\<close> is an instance of the class; field \<open>f\<close> of the class
  is \<open>s_f\<close>.
\<close>

record SaleObj =
  o_id :: "ObjectId option"
  o_mysqlId :: "int option"
  o_saleId :: "string option"
  o_customerId :: "int option"
  o_customerContact :: "string option"
  o_saleItems :: "Item list option"
  o_subTotal :: "rat option"
  o_taxAmount :: "rat option"
  o_discountAmount :: "rat option"
  o_totalAmount :: "rat option"
  o_paidAmount :: "rat option"
  o_changeAmount :: "rat option"
  o_paymentMethod :: "string option"
  o_saleDate :: "Date option"
  o_timestamp :: "int option"

record Sale =
  s_id :: "ObjectId option"
  s_mysqlId :: "int option"
  s_saleId :: string
  s_customerId :: "int option"
  s_customerContact :: string
  s_saleItems :: "Item list"
  s_subTotal :: rat
  s_taxAmount :: rat
  s_discountAmount :: rat
  s_totalAmount :: rat
  s_paidAmount :: rat
  s_changeAmount :: rat
  s_paymentMethod :: string
  s_saleDate :: Date
  s_timestamp :: int

text \<open>
  The constructor. \<open>now\<close> is the reading of the clock while the object is built:
  \<open>new Date()\<close> is \<open>Date now\<close> and \<open>Date.now()\<close> is \<open>now\<close>.
\<close>

definition Sale_new :: "int \<Rightarrow> SaleObj \<Rightarrow> Sale" where
  "Sale_new now data =
     \<lparr> s_id = obj_or_null (o_id data),
       s_mysqlId = num_or_null (o_mysqlId data),
       s_saleId = str_or (o_saleId data) [],
       s_customerId = num_or_null (o_customerId data),
       s_customerContact = str_or (o_customerContact data) [],
       s_saleItems = obj_or (o_saleItems data) [],
       s_subTotal = num_or (o_subTotal data) 0,
       s_taxAmount = num_or (o_taxAmount data) 0,
       s_discountAmount = num_or (o_discountAmount data) 0,
       s_totalAmount = num_or (o_totalAmount data) 0,
       s_paidAmount = num_or (o_paidAmount data) 0,
       s_changeAmount = num_or (o_changeAmount data) 0,
       s_paymentMethod = str_or (o_paymentMethod data) [],
       s_saleDate = obj_or (o_saleDate data) (Date now),
       s_timestamp = num_or (o_timestamp data) now \<rparr>"

definition Sale_create :: "int \<Rightarrow> SaleObj \<Rightarrow> Sale" where
  "Sale_create now data =
     Sale_new now
       \<lparr> o_id = None,
         o_mysqlId = o_mysqlId data,
         o_saleId = o_saleId data,
         o_customerId = o_customerId data,
         o_customerContact = o_customerContact data,
         o_saleItems = Some (obj_or (o_saleItems data) []),
         o_subTotal = Some (num_or (o_subTotal data) 0),
         o_taxAmount = Some (num_or (o_taxAmount data) 0),
         o_discountAmount = Some (num_or (o_discountAmount data) 0),
         o_totalAmount = Some (num_or (o_totalAmount data) 0),
         o_paidAmount = Some (num_or (o_paidAmount data) 0),
         o_changeAmount = Some (num_or (o_changeAmount data) 0),
         o_paymentMethod = o_paymentMethod data,
         o_saleDate = Some (obj_or (o_saleDate data) (Date now)),
         o_timestamp = Some now \<rparr>"

definition Sale_toDocument :: "Sale \<Rightarrow> SaleObj" where
  "Sale_toDocument s =
     \<lparr> o_id = None,
       o_mysqlId = s_mysqlId s,
       o_saleId = Some (s_saleId s),
       o_customerId = s_customerId s,
       o_customerContact = Some (s_customerContact s),
       o_saleItems = Some (map item_toDocument (s_saleItems s)),
       o_subTotal = Some (s_subTotal s),
       o_taxAmount = Some (s_taxAmount s),
       o_discountAmount = Some (s_discountAmount s),
       o_totalAmount = Some (s_totalAmount s),
       o_paidAmount = Some (s_paidAmount s),
       o_changeAmount = Some (s_changeAmount s),
       o_paymentMethod = Some (s_paymentMethod s),
       o_saleDate = Some (s_saleDate s),
       o_timestamp = Some (s_timestamp s) \<rparr>"

definition Sale_fromDocument :: "int \<Rightarrow> SaleObj \<Rightarrow> Sale" where
  "Sale_fromDocument now doc =
     Sale_new now
       \<lparr> o_id = o_id doc,
         o_mysqlId = o_mysqlId doc,
         o_saleId = o_saleId doc,
         o_customerId = o_customerId doc,
         o_customerContact = o_customerContact doc,
         o_saleItems = Some (obj_or (o_saleItems doc) []),
         o_subTotal = o_subTotal doc,
         o_taxAmount = o_taxAmount doc,
         o_discountAmount = o_discountAmount doc,
         o_totalAmount = o_totalAmount doc,
         o_paidAmount = o_paidAmount doc,
         o_changeAmount = o_changeAmount doc,
         o_paymentMethod = o_paymentMethod doc,
         o_saleDate = o_saleDate doc,
         o_timestamp = o_timestamp doc \<rparr>"

text \<open>
  \<open>calculateTotals\<close> mutates \<open>this\<close>; the model returns the updated object. The
  \<open>reduce\<close> is a left fold from 0, and every operation is one of doubles.
\<close>

definition calculateTotals :: "Sale \<Rightarrow> Sale" where
  "calculateTotals s =
     (let subTotal = foldl (\<lambda>total item.
                         js_add total
                           (num_or (item_subTotal item)
                                   (js_mul (item_quantity item) (item_unitPrice item))))
                       0 (s_saleItems s);
          totalAmount = js_sub (js_add subTotal (s_taxAmount s)) (s_discountAmount s);
          changeAmount = js_sub (s_paidAmount s) totalAmount
      in s\<lparr> s_subTotal := subTotal,
            s_totalAmount := totalAmount,
            s_changeAmount := changeAmount \<rparr>)"

text \<open>
  \<open>String.prototype.trim\<close> on ASCII text: tab, line feed, vertical tab, form feed,
  carriage return and space are removed from both ends.
\<close>

definition is_ws :: "char \<Rightarrow> bool" where
  "is_ws c = (c = CHR 0x09 \<or> c = CHR 0x0A \<or> c = CHR 0x0B \<or> c = CHR 0x0C \<or> c = CHR 0x0D
              \<or> c = CHR '' '')"

definition trim :: "string \<Rightarrow> string" where
  "trim s = rev (dropWhile is_ws (rev (dropWhile is_ws s)))"

text \<open>\<open>Array.prototype.join\<close>\<close>

fun join :: "string \<Rightarrow> string list \<Rightarrow> string" where
  "join sep [] = []"
| "join sep [x] = x"
| "join sep (x # y # ys) = x @ sep @ join sep (y # ys)"

record ValidationResult =
  isValid :: bool
  errors :: "string list"

text \<open>
  \<open>validate\<close> pushes onto \<open>errors\<close> in four consecutive \<open>if\<close> statements. \<open>!this.saleId\<close>
  holds for the empty string, and \<open>!this.saleItems\<close> never holds for an array.
\<close>

definition Sale_validate :: "Sale \<Rightarrow> ValidationResult" where
  "Sale_validate s =
     (let errors0 = [];
          errors1 = (if s_saleId s = [] \<or> trim (s_saleId s) = []
                     then errors0 @ [''Sale ID is required''] else errors0);
          errors2 = (if length (s_saleItems s) = 0
                     then errors1 @ [''Sale must have at least one item''] else errors1);
          errors3 = (if s_totalAmount s < 0
                     then errors2 @ [''Total amount cannot be negative''] else errors2);
          errors4 = (if s_paidAmount s < s_totalAmount s
                     then errors3 @ [''Paid amount must be greater than or equal to total amount'']
                     else errors3)
      in \<lparr> isValid = (length errors4 = 0), errors = errors4 \<rparr>)"

section \<open>The document store\<close>

text \<open>
  The MongoDB driver is outside the repository. A collection is the list of its
  documents in natural order; the store is always reachable. An error thrown by the
  service is \<open>Error\<close> with its message; an error of the database server is
  \<open>MongoServerError\<close>.
\<close>

datatype Error = Error string | MongoServerError string

record SalesDb =
  sales :: "SaleObj list"
  next_oid :: nat

text \<open>\<open>insertOne\<close>: the driver assigns a fresh \<open>_id\<close> and reports it as \<open>insertedId\<close>.\<close>

definition insertOne :: "SalesDb \<Rightarrow> SaleObj \<Rightarrow> ObjectId \<times> SalesDb" where
  "insertOne db doc =
     (let insertedId = ObjectId (next_oid db)
      in (insertedId,
          db\<lparr> sales := sales db @ [doc\<lparr> o_id := Some insertedId \<rparr>],
              next_oid := Suc (next_oid db) \<rparr>))"

text \<open>
  \<open>updateOne({ _id: id }, { $set: doc })\<close> with a \<open>doc\<close> that carries every key of a
  sale but \<open>_id\<close>: the first document with that \<open>_id\<close> takes all values of \<open>doc\<close> and
  keeps its \<open>_id\<close>. The result is \<open>matchedCount\<close> and the new store.
\<close>

fun set_first :: "ObjectId \<Rightarrow> SaleObj \<Rightarrow> SaleObj list \<Rightarrow> nat \<times> SaleObj list" where
  "set_first i doc [] = (0, [])"
| "set_first i doc (d # ds) =
     (if o_id d = Some i then (1, doc\<lparr> o_id := Some i \<rparr> # ds)
      else (let (n, ds') = set_first i doc ds in (n, d # ds')))"

definition updateOne :: "SalesDb \<Rightarrow> ObjectId \<Rightarrow> SaleObj \<Rightarrow> nat \<times> SalesDb" where
  "updateOne db i doc =
     (let (matchedCount, ds) = set_first i doc (sales db)
      in (matchedCount, db\<lparr> sales := ds \<rparr>))"

definition findOne_by_id :: "SalesDb \<Rightarrow> ObjectId \<Rightarrow> SaleObj option" where
  "findOne_by_id db i = find (\<lambda>d. o_id d = Some i) (sales db)"

text \<open>
  Cursor modifiers. The server rejects a negative \<open>skip\<close>; \<open>limit(0)\<close> means no limit
  and \<open>limit(-n)\<close> returns at most \<open>n\<close> documents.
\<close>

definition cursor_skip :: "int \<Rightarrow> 'd list \<Rightarrow> Error + 'd list" where
  "cursor_skip n ds =
     (if n < 0 then Inl (MongoServerError ''Skip value must be non-negative'')
      else Inr (drop (nat n) ds))"

definition cursor_limit :: "int \<Rightarrow> 'd list \<Rightarrow> 'd list" where
  "cursor_limit n ds = (if n = 0 then ds else take (nat \<bar>n\<bar>) ds)"

datatype SortOrder = Ascending | Descending

text \<open>
  \<open>sort({ [sortBy]: sortOrder })\<close>: a missing value sorts lowest, strings compare by
  their bytes. The order among equal keys is not fixed by the server; here it is that
  of a stable sort, reversed when descending.
\<close>

definition sort_by :: "('d \<Rightarrow> 'k::linorder) \<Rightarrow> SortOrder \<Rightarrow> 'd list \<Rightarrow> 'd list" where
  "sort_by key ord ds =
     (case ord of Ascending \<Rightarrow> sort_key key ds | Descending \<Rightarrow> rev (sort_key key ds))"

text \<open>The result of \<open>totalCount / limit\<close> and of \<open>Math.ceil\<close>, with division by zero.\<close>

datatype jsnum = Num rat | Infinity | NegInfinity | NaN

definition js_div :: "rat \<Rightarrow> rat \<Rightarrow> jsnum" where
  "js_div a b =
     (if b = 0 then (if a = 0 then NaN else if 0 < a then Infinity else NegInfinity)
      else Num (a / b))"

fun Math_ceil :: "jsnum \<Rightarrow> jsnum" where
  "Math_ceil (Num q) = Num (of_int \<lceil>q\<rceil>)"
| "Math_ceil x = x"

record Pagination =
  pg_page :: int
  pg_limit :: int
  pg_totalCount :: nat
  pg_totalPages :: jsnum

section \<open>SaleService (services/SaleService.js)\<close>

text \<open>
  The readings of the clock during one call of a service method are one instant \<open>now\<close>.
  A method that throws returns \<open>Inl\<close> of the error; the \<open>catch\<close> blocks log and rethrow.
\<close>

record SaleResponse =
  r_success :: bool
  r_data :: Sale
  r_message :: "string option"

definition createSale :: "int \<Rightarrow> SaleObj \<Rightarrow> SalesDb \<Rightarrow> (Error + SaleResponse) \<times> SalesDb" where
  "createSale now saleData db =
     (let sale = Sale_create now saleData;
          validation = Sale_validate sale
      in if \<not> isValid validation
         then (Inl (Error (''Validation failed: '' @ join '', '' (errors validation))), db)
         else (let sale' = calculateTotals sale;
                   (insertedId, db') = insertOne db (Sale_toDocument sale')
               in (Inr \<lparr> r_success = True,
                         r_data = Sale_fromDocument now
                                    ((Sale_toDocument sale')\<lparr> o_id := Some insertedId \<rparr>),
                         r_message = Some ''Sale created successfully'' \<rparr>,
                   db')))"

definition getSaleById :: "int \<Rightarrow> ObjectId \<Rightarrow> SalesDb \<Rightarrow> Error + SaleResponse" where
  "getSaleById now i db =
     (case findOne_by_id db i of
        None \<Rightarrow> Inl (Error ''Sale not found'')
      | Some sale \<Rightarrow> Inr \<lparr> r_success = True, r_data = Sale_fromDocument now sale,
                          r_message = None \<rparr>)"

definition updateSale ::
  "int \<Rightarrow> ObjectId \<Rightarrow> SaleObj \<Rightarrow> SalesDb \<Rightarrow> (Error + SaleResponse) \<times> SalesDb" where
  "updateSale now i updateData db =
     (let sale = Sale_create now updateData;
          validation = Sale_validate sale
      in if \<not> isValid validation
         then (Inl (Error (''Validation failed: '' @ join '', '' (errors validation))), db)
         else (let sale' = calculateTotals sale;
                   (matchedCount, db') = updateOne db i (Sale_toDocument sale')
               in if matchedCount = 0 then (Inl (Error ''Sale not found''), db')
                  else (case getSaleById now i db' of
                          Inl e \<Rightarrow> (Inl e, db')
                        | Inr updatedSale \<Rightarrow>
                            (Inr \<lparr> r_success = True, r_data = r_data updatedSale,
                                   r_message = Some ''Sale updated successfully'' \<rparr>,
                             db'))))"

text \<open>A destructuring default \<open>{ page = 1 } = options\<close> applies when the key is missing.\<close>

definition default_to :: "'a option \<Rightarrow> 'a \<Rightarrow> 'a" where
  "default_to v d = (case v of None \<Rightarrow> d | Some x \<Rightarrow> x)"

datatype SaleSortField = SortTimestamp | SortSaleDate | SortTotalAmount

record SaleQuery =
  q_page :: "int option"
  q_limit :: "int option"
  q_sortBy :: "SaleSortField option"
  q_sortOrder :: "SortOrder option"
  q_startDate :: "Date option"
  q_endDate :: "Date option"
  q_customerId :: "int option"

text \<open>The query filter: \<open>{ saleDate: { $gte, $lte }, customerId }\<close>, each part optional.\<close>

record SaleFilter =
  f_gte :: "Date option"
  f_lte :: "Date option"
  f_customerId :: "int option"

text \<open>
  A document matches \<open>$gte\<close> / \<open>$lte\<close> when it has a \<open>saleDate\<close> within the bound
  (inclusive), and \<open>customerId\<close> when it has that very value.
\<close>

definition matches :: "SaleFilter \<Rightarrow> SaleObj \<Rightarrow> bool" where
  "matches f d =
     ((case f_gte f of None \<Rightarrow> True
       | Some lo \<Rightarrow> (case o_saleDate d of None \<Rightarrow> False | Some t \<Rightarrow> date_ms lo \<le> date_ms t))
      \<and> (case f_lte f of None \<Rightarrow> True
         | Some hi \<Rightarrow> (case o_saleDate d of None \<Rightarrow> False | Some t \<Rightarrow> date_ms t \<le> date_ms hi))
      \<and> (case f_customerId f of None \<Rightarrow> True | Some c \<Rightarrow> o_customerId d = Some c))"

definition getAllSales_filter :: "Date option \<Rightarrow> Date option \<Rightarrow> int option \<Rightarrow> SaleFilter" where
  "getAllSales_filter startDate endDate customerId =
     (let filter0 = \<lparr> f_gte = None, f_lte = None, f_customerId = None \<rparr>;
          filter1 = (if startDate \<noteq> None \<or> endDate \<noteq> None
                     then (let fa = (if startDate \<noteq> None then filter0\<lparr> f_gte := startDate \<rparr>
                                     else filter0)
                           in if endDate \<noteq> None then fa\<lparr> f_lte := endDate \<rparr> else fa)
                     else filter0)
      in if num_or_null customerId \<noteq> None then filter1\<lparr> f_customerId := customerId \<rparr>
         else filter1)"

fun sort_sales :: "SaleSortField \<Rightarrow> SortOrder \<Rightarrow> SaleObj list \<Rightarrow> SaleObj list" where
  "sort_sales SortTimestamp ord ds = sort_by o_timestamp ord ds"
| "sort_sales SortSaleDate ord ds = sort_by (\<lambda>d. map_option date_ms (o_saleDate d)) ord ds"
| "sort_sales SortTotalAmount ord ds = sort_by o_totalAmount ord ds"

record SaleListResponse =
  l_success :: bool
  l_data :: "Sale list"
  l_pagination :: Pagination

definition getAllSales :: "int \<Rightarrow> SaleQuery \<Rightarrow> SalesDb \<Rightarrow> Error + SaleListResponse" where
  "getAllSales now options db =
     (let page = default_to (q_page options) 1;
          limit = default_to (q_limit options) 10;
          sortBy = default_to (q_sortBy options) SortTimestamp;
          sortOrder = default_to (q_sortOrder options) Descending;
          skip = (page - 1) * limit;
          filter = getAllSales_filter (q_startDate options) (q_endDate options)
                     (q_customerId options)
      in case cursor_skip skip
                (sort_sales sortBy sortOrder (List.filter (matches filter) (sales db))) of
           Inl e \<Rightarrow> Inl e
         | Inr skipped \<Rightarrow>
             (let sales' = cursor_limit limit skipped;
                  totalCount = length (List.filter (matches filter) (sales db));
                  formattedSales = map (Sale_fromDocument now) sales'
              in Inr \<lparr> l_success = True,
                       l_data = formattedSales,
                       l_pagination =
                         \<lparr> pg_page = page, pg_limit = limit, pg_totalCount = totalCount,
                           pg_totalPages = Math_ceil (js_div (of_nat totalCount) (of_int limit))
                         \<rparr> \<rparr>))"

subsection \<open>Analytics\<close>

record AnalyticsQuery =
  aq_startDate :: "Date option"
  aq_endDate :: "Date option"

definition getSalesAnalytics_matchFilter :: "Date option \<Rightarrow> Date option \<Rightarrow> SaleFilter" where
  "getSalesAnalytics_matchFilter startDate endDate =
     (let matchFilter = \<lparr> f_gte = None, f_lte = None, f_customerId = None \<rparr>
      in if startDate \<noteq> None \<or> endDate \<noteq> None
         then (let fa = (if startDate \<noteq> None then matchFilter\<lparr> f_gte := startDate \<rparr>
                         else matchFilter)
               in if endDate \<noteq> None then fa\<lparr> f_lte := endDate \<rparr> else fa)
         else matchFilter)"

text \<open>
  The group document of the \<open>$group\<close> stage, without its \<open>_id: null\<close>. \<open>$avg\<close> over no
  number is \<open>null\<close>.
\<close>

record AnalyticsData =
  totalSales :: nat
  totalRevenue :: rat
  totalItemsSold :: nat
  averageSaleAmount :: "rat option"

text \<open>
  \<open>$group\<close> with \<open>_id: null\<close>: no input document gives no group; otherwise one group.
  \<open>$sum\<close> and \<open>$avg\<close> skip a document without the number, and \<open>$size\<close> of a missing
  array is an error of the server.
\<close>

definition group_stage :: "SaleObj list \<Rightarrow> Error + AnalyticsData list" where
  "group_stage ms =
     (if ms = [] then Inr []
      else if list_ex (\<lambda>d. o_saleItems d = None) ms
      then Inl (MongoServerError ''The argument to $size must be an array'')
      else (let amounts = List.map_filter o_totalAmount ms
            in Inr [\<lparr> totalSales = length ms,
                      totalRevenue = sum_list amounts,
                      totalItemsSold = sum_list (map (\<lambda>d. length (default_to (o_saleItems d) [])) ms),
                      averageSaleAmount =
                        (if amounts = [] then None
                         else Some (sum_list amounts / of_nat (length amounts))) \<rparr>]))"

record AnalyticsResponse =
  a_success :: bool
  a_data :: AnalyticsData

definition getSalesAnalytics :: "AnalyticsQuery \<Rightarrow> SalesDb \<Rightarrow> Error + AnalyticsResponse" where
  "getSalesAnalytics options db =
     (let matchFilter = getSalesAnalytics_matchFilter (aq_startDate options) (aq_endDate options)
      in case group_stage (List.filter (matches matchFilter) (sales db)) of
           Inl e \<Rightarrow> Inl e
         | Inr analytics \<Rightarrow>
             Inr \<lparr> a_success = True,
                   a_data = (case analytics of
                               g # _ \<Rightarrow> g
                             | [] \<Rightarrow> \<lparr> totalSales = 0, totalRevenue = 0, totalItemsSold = 0,
                                        averageSaleAmount = Some 0 \<rparr>) \<rparr>)"

section \<open>Customer (models/Customer.js)\<close>

record CustomerObj =
  co_id :: "ObjectId option"
  co_mysqlId :: "int option"
  co_saleId :: "string option"
  co_contact :: "string option"
  co_email :: "string option"
  co_createdDate :: "Date option"
  co_timestamp :: "int option"

record Customer =
  c_id :: "ObjectId option"
  c_mysqlId :: "int option"
  c_saleId :: "string option"
  c_contact :: string
  c_email :: string
  c_createdDate :: Date
  c_timestamp :: int

definition Customer_new :: "int \<Rightarrow> CustomerObj \<Rightarrow> Customer" where
  "Customer_new now data =
     \<lparr> c_id = obj_or_null (co_id data),
       c_mysqlId = num_or_null (co_mysqlId data),
       c_saleId = str_or_null (co_saleId data),
       c_contact = str_or (co_contact data) [],
       c_email = str_or (co_email data) [],
       c_createdDate = obj_or (co_createdDate data) (Date now),
       c_timestamp = num_or (co_timestamp data) now \<rparr>"

definition Customer_toDocument :: "Customer \<Rightarrow> CustomerObj" where
  "Customer_toDocument c =
     \<lparr> co_id = None,
       co_mysqlId = c_mysqlId c,
       co_saleId = c_saleId c,
       co_contact = Some (c_contact c),
       co_email = Some (c_email c),
       co_createdDate = Some (c_createdDate c),
       co_timestamp = Some (c_timestamp c) \<rparr>"

definition Customer_fromDocument :: "int \<Rightarrow> CustomerObj \<Rightarrow> Customer" where
  "Customer_fromDocument now doc =
     Customer_new now
       \<lparr> co_id = co_id doc,
         co_mysqlId = co_mysqlId doc,
         co_saleId = co_saleId doc,
         co_contact = co_contact doc,
         co_email = co_email doc,
         co_createdDate = co_createdDate doc,
         co_timestamp = co_timestamp doc \<rparr>"

subsection \<open>CustomerService.getAllCustomers (services/CustomerService.js)\<close>

datatype CustomerSortField = SortCTimestamp | SortCreatedDate | SortContact

record CustomerQuery =
  cq_page :: "int option"
  cq_limit :: "int option"
  cq_sortBy :: "CustomerSortField option"
  cq_sortOrder :: "SortOrder option"

fun sort_customers ::
  "CustomerSortField \<Rightarrow> SortOrder \<Rightarrow> CustomerObj list \<Rightarrow> CustomerObj list" where
  "sort_customers SortCTimestamp ord ds = sort_by co_timestamp ord ds"
| "sort_customers SortCreatedDate ord ds =
     sort_by (\<lambda>d. map_option date_ms (co_createdDate d)) ord ds"
| "sort_customers SortContact ord ds = sort_by co_contact ord ds"

record CustomerListResponse =
  cl_success :: bool
  cl_data :: "Customer list"
  cl_pagination :: Pagination

text \<open>\<open>find({})\<close> and \<open>countDocuments()\<close> select every document of the collection.\<close>

definition getAllCustomers ::
  "int \<Rightarrow> CustomerQuery \<Rightarrow> CustomerObj list \<Rightarrow> Error + CustomerListResponse" where
  "getAllCustomers now options collection =
     (let page = default_to (cq_page options) 1;
          limit = default_to (cq_limit options) 10;
          sortBy = default_to (cq_sortBy options) SortCTimestamp;
          sortOrder = default_to (cq_sortOrder options) Descending;
          skip = (page - 1) * limit
      in case cursor_skip skip
                (sort_customers sortBy sortOrder (List.filter (\<lambda>d. True) collection)) of
           Inl e \<Rightarrow> Inl e
         | Inr skipped \<Rightarrow>
             (let customers = cursor_limit limit skipped;
                  totalCount = length collection;
                  formattedCustomers = map (Customer_fromDocument now) customers
              in Inr \<lparr> cl_success = True,
                       cl_data = formattedCustomers,
                       cl_pagination =
                         \<lparr> pg_page = page, pg_limit = limit, pg_totalCount = totalCount,
                           pg_totalPages = Math_ceil (js_div (of_nat totalCount) (of_int limit))
                         \<rparr> \<rparr>))"

section \<open>Supplier (models/Supplier.js)\<close>

record SupplierObj =
  po_id :: "ObjectId option"
  po_mysqlId :: "int option"
  po_name :: "string option"
  po_contact :: "string option"
  po_contactPerson :: "string option"
  po_phone :: "string option"
  po_email :: "string option"
  po_address :: "string option"
  po_createdDate :: "Date option"
  po_timestamp :: "int option"

record Supplier =
  p_id :: "ObjectId option"
  p_mysqlId :: "int option"
  p_name :: string
  p_contact :: string
  p_contactPerson :: string
  p_phone :: string
  p_email :: string
  p_address :: string
  p_createdDate :: Date
  p_timestamp :: int

definition Supplier_new :: "int \<Rightarrow> SupplierObj \<Rightarrow> Supplier" where
  "Supplier_new now data =
     \<lparr> p_id = obj_or_null (po_id data),
       p_mysqlId = num_or_null (po_mysqlId data),
       p_name = str_or (po_name data) [],
       p_contact = str_or (po_contact data) [],
       p_contactPerson = str_or (po_contactPerson data) [],
       p_phone = str_or (po_phone data) [],
       p_email = str_or (po_email data) [],
       p_address = str_or (po_address data) [],
       p_createdDate = obj_or (po_createdDate data) (Date now),
       p_timestamp = num_or (po_timestamp data) now \<rparr>"

definition Supplier_toDocument :: "Supplier \<Rightarrow> SupplierObj" where
  "Supplier_toDocument p =
     \<lparr> po_id = None,
       po_mysqlId = p_mysqlId p,
       po_name = Some (p_name p),
       po_contact = Some (p_contact p),
       po_contactPerson = Some (p_contactPerson p),
       po_phone = Some (p_phone p),
       po_email = Some (p_email p),
       po_address = Some (p_address p),
       po_createdDate = Some (p_createdDate p),
       po_timestamp = Some (p_timestamp p) \<rparr>"

definition Supplier_fromDocument :: "int \<Rightarrow> SupplierObj \<Rightarrow> Supplier" where
  "Supplier_fromDocument now doc =
     Supplier_new now
       \<lparr> po_id = po_id doc,
         po_mysqlId = po_mysqlId doc,
         po_name = po_name doc,
         po_contact = po_contact doc,
         po_contactPerson = po_contactPerson doc,
         po_phone = po_phone doc,
         po_email = po_email doc,
         po_address = po_address doc,
         po_createdDate = po_createdDate doc,
         po_timestamp = po_timestamp doc \<rparr>"

section \<open>Example inputs and predicates of the statements\<close>

text \<open>
  The scenario of the specification: one item \<open>{quantity: 2, unitPrice: 25.00}\<close>,
  \<open>taxAmount: 5.00\<close>, \<open>discountAmount: 2.00\<close> and the given \<open>paidAmount\<close>; the request
  carries a \<open>saleId\<close> and no aggregate total.
\<close>

definition scenario_item :: SaleItemObj where
  "scenario_item =
     \<lparr> io_mysqlId = None, io_productId = Some 1, io_productName = Some ''Tea'',
       io_category = None, io_quantity = 2, io_unitPrice = 25, io_subTotal = None \<rparr>"

definition scenario_data :: "rat \<Rightarrow> SaleObj" where
  "scenario_data paid =
     \<lparr> o_id = None, o_mysqlId = None, o_saleId = Some ''S-1'', o_customerId = None,
       o_customerContact = None, o_saleItems = Some [Plain scenario_item],
       o_subTotal = None, o_taxAmount = Some 5, o_discountAmount = Some 2,
       o_totalAmount = None, o_paidAmount = Some paid, o_changeAmount = None,
       o_paymentMethod = None, o_saleDate = None, o_timestamp = None \<rparr>"

definition empty_db :: SalesDb where
  "empty_db = \<lparr> sales = [], next_oid = 0 \<rparr>"

text \<open>
  The line amounts as the specification words them: the item's \<open>subTotal\<close>, and
  \<open>quantity \<times> unitPrice\<close> only where \<open>subTotal\<close> is absent.
\<close>

definition claimed_subTotal :: "Item list \<Rightarrow> rat" where
  "claimed_subTotal items =
     sum_list (map (\<lambda>item. case item_subTotal item of
                               None \<Rightarrow> item_quantity item * item_unitPrice item
                             | Some x \<Rightarrow> x) items)"

text \<open>
  The amount of a line: the item's \<open>subTotal\<close>, and the product of \<open>quantity\<close> and
  \<open>unitPrice\<close> where \<open>subTotal\<close> is absent or zero. The product is a parameter: the
  code's is \<open>js_mul\<close>, the exact one is \<open>(*)\<close>.
\<close>

definition line_amount :: "(rat \<Rightarrow> rat \<Rightarrow> rat) \<Rightarrow> Item \<Rightarrow> rat" where
  "line_amount mul item =
     (if item_subTotal item = None \<or> item_subTotal item = Some 0
      then mul (item_quantity item) (item_unitPrice item)
      else the (item_subTotal item))"

text \<open>A rational is a double when rounding leaves it as it is.\<close>

definition is_double :: "rat \<Rightarrow> bool" where
  "is_double x = (round_double x = x)"

text \<open>
  A sale in cents that doubles represent: two items at 0.5, one line of 1.25 with its
  \<open>subTotal\<close> given, tax 0.25, no discount, paid with 3.
\<close>

definition dyadic_sale :: Sale where
  "dyadic_sale =
     Sale_create 1000
       ((scenario_data 3)
          \<lparr> o_saleItems :=
              Some [Plain (scenario_item\<lparr> io_unitPrice := 1 / 2 \<rparr>),
                    Plain (scenario_item\<lparr> io_quantity := 1, io_unitPrice := 5 / 4,
                                           io_subTotal := Some (5 / 4) \<rparr>)],
            o_taxAmount := Some (1 / 4), o_discountAmount := None \<rparr>)"

text \<open>
  The double that the literal \<open>0.1\<close> denotes, and a sale of three items at that price:
  \<open>[{quantity: 3, unitPrice: 0.1}]\<close>.
\<close>

definition double_0_1 :: rat where
  "double_0_1 = 3602879701896397 / 36028797018963968"

definition tenth_sale :: Sale where
  "tenth_sale =
     Sale_create 1000
       ((scenario_data 60)
          \<lparr> o_saleItems :=
              Some [Plain (scenario_item\<lparr> io_quantity := 3, io_unitPrice := double_0_1 \<rparr>)] \<rparr>)"

text \<open>A sale whose only item carries an explicit \<open>subTotal: 0\<close>.\<close>

definition zero_subTotal_sale :: Sale where
  "zero_subTotal_sale =
     Sale_create 1000
       ((scenario_data 60)
          \<lparr> o_saleItems := Some [Plain (scenario_item\<lparr> io_subTotal := Some 0 \<rparr>)] \<rparr>)"

text \<open>A request that breaks all four rules of \<open>validate\<close> at once.\<close>

definition all_invalid_data :: SaleObj where
  "all_invalid_data =
     \<lparr> o_id = None, o_mysqlId = None, o_saleId = None, o_customerId = None,
       o_customerContact = None, o_saleItems = None,
       o_subTotal = None, o_taxAmount = None, o_discountAmount = None,
       o_totalAmount = Some (- 1), o_paidAmount = Some (- 2), o_changeAmount = None,
       o_paymentMethod = None, o_saleDate = None, o_timestamp = None \<rparr>"

text \<open>The scenario paid in full (60 for a total of 53), with a caller-supplied total of 100.\<close>

definition overstated_total_data :: SaleObj where
  "overstated_total_data = (scenario_data 60)\<lparr> o_totalAmount := Some 100 \<rparr>"

text \<open>The store after the scenario's sale, paid with 60, was created in an empty store.\<close>

definition one_sale_db :: SalesDb where
  "one_sale_db = snd (createSale 1000 (scenario_data 60) empty_db)"

text \<open>
  The scenario of the specification for lists: 25 stored sales, \<open>page=2, limit=10\<close>.
  The documents are those of the scenario's sale, with \<open>_id\<close> 0 to 24.
\<close>

definition stored_sale :: "nat \<Rightarrow> SaleObj" where
  "stored_sale n =
     (Sale_toDocument (calculateTotals (Sale_create 1000 (scenario_data 60))))
       \<lparr> o_id := Some (ObjectId n) \<rparr>"

definition db25 :: SalesDb where
  "db25 = \<lparr> sales = map stored_sale [0..<25], next_oid = 25 \<rparr>"

definition page2_query :: SaleQuery where
  "page2_query =
     \<lparr> q_page = Some 2, q_limit = Some 10, q_sortBy = None, q_sortOrder = None,
       q_startDate = None, q_endDate = None, q_customerId = None \<rparr>"

definition stored_customer :: "nat \<Rightarrow> CustomerObj" where
  "stored_customer n =
     \<lparr> co_id = Some (ObjectId n), co_mysqlId = None, co_saleId = None,
       co_contact = Some ''0771234567'', co_email = Some [],
       co_createdDate = Some (Date 1000), co_timestamp = Some 1000 \<rparr>"

definition customers25 :: "CustomerObj list" where
  "customers25 = map stored_customer [0..<25]"

definition page2_customer_query :: CustomerQuery where
  "page2_customer_query =
     \<lparr> cq_page = Some 2, cq_limit = Some 10, cq_sortBy = None, cq_sortOrder = None \<rparr>"

text \<open>List queries with \<open>limit: 0\<close> and with \<open>limit: -1\<close>.\<close>

definition zero_limit_query :: SaleQuery where
  "zero_limit_query =
     \<lparr> q_page = Some 1, q_limit = Some 0, q_sortBy = None, q_sortOrder = None,
       q_startDate = None, q_endDate = None, q_customerId = None \<rparr>"

definition negative_limit_query :: SaleQuery where
  "negative_limit_query =
     \<lparr> q_page = Some 1, q_limit = Some (- 1), q_sortBy = None, q_sortOrder = None,
       q_startDate = None, q_endDate = None, q_customerId = None \<rparr>"

text \<open>
  A stored document is complete when it has the two keys the aggregation reads, as every
  document that \<open>toDocument\<close> builds has.
\<close>

definition complete_doc :: "SaleObj \<Rightarrow> bool" where
  "complete_doc d = (o_totalAmount d \<noteq> None \<and> o_saleItems d \<noteq> None)"

text \<open>
  Three stored sales for the analytics: sale \<open>n\<close> has \<open>k\<close> items of the scenario,
  tax 5 and discount 2, is paid in full and dated \<open>t\<close>.
\<close>

definition analytics_sale :: "nat \<Rightarrow> nat \<Rightarrow> int \<Rightarrow> SaleObj" where
  "analytics_sale n k t =
     (Sale_toDocument (calculateTotals (Sale_create 1000
        ((scenario_data (50 * of_nat k + 3))
           \<lparr> o_saleItems := Some (replicate k (Plain scenario_item)),
             o_saleDate := Some (Date t) \<rparr>))))
       \<lparr> o_id := Some (ObjectId n) \<rparr>"

definition analytics_db :: SalesDb where
  "analytics_db =
     \<lparr> sales = [analytics_sale 0 1 100, analytics_sale 1 2 200, analytics_sale 2 3 300],
       next_oid = 3 \<rparr>"

text \<open>
  The fields of an entity as the constructor leaves them: \<open>x || null\<close> and
  \<open>x || Date.now()\<close> never yield the number 0 or the empty string, so \<open>mysqlId\<close>,
  \<open>customerId\<close> and \<open>timestamp\<close> are not 0 and a customer's \<open>saleId\<close> is not empty.
  (A clock reading is not 0 either.)
\<close>

definition Customer_normal :: "Customer \<Rightarrow> bool" where
  "Customer_normal c = (c_mysqlId c \<noteq> Some 0 \<and> c_saleId c \<noteq> Some [] \<and> c_timestamp c \<noteq> 0)"

definition Supplier_normal :: "Supplier \<Rightarrow> bool" where
  "Supplier_normal p = (p_mysqlId p \<noteq> Some 0 \<and> p_timestamp p \<noteq> 0)"

definition Sale_normal :: "Sale \<Rightarrow> bool" where
  "Sale_normal s = (s_mysqlId s \<noteq> Some 0 \<and> s_customerId s \<noteq> Some 0 \<and> s_timestamp s \<noteq> 0)"

text \<open>A customer and a supplier built from request data, and a customer read from the store.\<close>

definition new_customer :: Customer where
  "new_customer =
     Customer_new 1000
       \<lparr> co_id = None, co_mysqlId = Some 12, co_saleId = None,
         co_contact = Some ''0771234567'', co_email = None,
         co_createdDate = None, co_timestamp = None \<rparr>"

definition new_supplier :: Supplier where
  "new_supplier =
     Supplier_new 1000
       \<lparr> po_id = None, po_mysqlId = None, po_name = Some ''Acme'',
         po_contact = Some ''0112345678'', po_contactPerson = None, po_phone = None,
         po_email = Some ''sales@acme.example'', po_address = None,
         po_createdDate = None, po_timestamp = None \<rparr>"

definition persisted_customer :: Customer where
  "persisted_customer = Customer_fromDocument 1000 (stored_customer 7)"

section \<open>Doubles\<close>

lemma pow2_pred: "pow2 (e - 1) * 2 = pow2 e"
proof (cases "1 \<le> e")
  case True
  then have "nat e = Suc (nat (e - 1))" by simp
  with True show ?thesis by (simp add: pow2_def)
next
  case False
  then have "nat (- (e - 1)) = Suc (nat (- e))" by simp
  with False show ?thesis by (simp add: pow2_def)
qed

lemma norm_down_value: "fst (norm_down a e) * pow2 (snd (norm_down a e)) = a * pow2 e"
proof (induction a e rule: norm_down.induct)
  case (1 a e)
  show ?case
  proof (cases "a < 2 ^ 52 \<and> - 1074 < e")
    case True
    then have "norm_down a e = norm_down (a * 2) (e - 1)"
      by (subst norm_down.simps) simp
    with 1 True show ?thesis
      using pow2_pred [of e] by (simp add: mult.assoc mult.commute)
  next
    case False
    then have "norm_down a e = (a, e)" by (subst norm_down.simps) auto
    then show ?thesis by simp
  qed
qed

lemma norm_down_int: "a \<in> \<int> \<Longrightarrow> fst (norm_down a e) \<in> \<int>"
proof (induction a e rule: norm_down.induct)
  case (1 a e)
  show ?case
  proof (cases "a < 2 ^ 52 \<and> - 1074 < e")
    case True
    then have "norm_down a e = norm_down (a * 2) (e - 1)"
      by (subst norm_down.simps) simp
    moreover have "a * 2 \<in> \<int>" using "1.prems" by (intro Ints_mult) simp_all
    ultimately show ?thesis using "1.IH" True by simp
  next
    case False
    then have "norm_down a e = (a, e)" by (subst norm_down.simps) auto
    then show ?thesis using "1.prems" by simp
  qed
qed

lemma round_half_even_of_int: "round_half_even (of_int z) = z"
  by (simp add: round_half_even_def)

text \<open>Every integer below \<open>2\<^sup>5\<^sup>3\<close> in magnitude is a double.\<close>

lemma round_double_of_int:
  assumes "\<bar>n\<bar> < 2 ^ 53"
  shows "round_double (of_int n) = of_int n"
proof (cases "n = 0")
  case True
  then show ?thesis by (simp add: round_double_def)
next
  case False
  define A :: rat where "A = \<bar>of_int n\<bar>"
  have A: "A = of_int \<bar>n\<bar>" by (simp add: A_def)
  have "A < of_int (2 ^ 53)" unfolding A using assms by (simp only: of_int_less_iff)
  then have "\<not> 2 ^ 53 \<le> A" by simp
  then have up: "norm_up A 0 = (A, 0)"
    by (subst norm_up.simps) simp
  obtain a' e' where d: "norm_down A 0 = (a', e')" by (cases "norm_down A 0")
  have "fst (norm_down A 0) \<in> \<int>"
    unfolding A by (rule norm_down_int) simp
  then obtain z where z: "a' = of_int z"
    using d by (auto elim: Ints_cases)
  have v: "a' * pow2 e' = A"
    using norm_down_value [of A 0] d by (simp add: pow2_def)
  have "round_double (of_int n) = sgn (of_int n) * of_int (round_half_even a') * pow2 e'"
    using False by (simp add: round_double_def A_def[symmetric] up d)
  also have "\<dots> = sgn (of_int n) * (a' * pow2 e')"
    by (simp add: z round_half_even_of_int)
  also have "\<dots> = sgn (of_int n :: rat) * \<bar>of_int n\<bar>" by (simp only: v A_def)
  also have "\<dots> = of_int n" by (simp add: sgn_if)
  finally show ?thesis .
qed

lemma round_double_numeral:
  "numeral k < (2::int) ^ 53 \<Longrightarrow> round_double (numeral k) = numeral k"
  using round_double_of_int [of "numeral k"] by simp

lemma round_double_neg_numeral:
  "numeral k < (2::int) ^ 53 \<Longrightarrow> round_double (- numeral k) = - numeral k"
  using round_double_of_int [of "- numeral k"] by simp

lemma round_double_0: "round_double 0 = 0"
  by (simp add: round_double_def)

lemma round_double_1: "round_double 1 = 1"
  using round_double_of_int [of 1] by simp

lemmas js_arith =
  js_add_def js_sub_def js_mul_def
  round_double_numeral round_double_neg_numeral round_double_0 round_double_1

lemma floor_rat_numeral_div:
  "\<lfloor>(numeral a :: rat) / numeral b\<rfloor> = numeral a div numeral b"
  by (metis floor_divide_of_int_eq of_int_numeral)

text \<open>Unfolding \<open>round_double\<close> at a given fraction.\<close>

lemmas round_double_eval =
  round_double_def norm_up.simps norm_down.simps round_half_even_def pow2_def Let_def
  floor_rat_numeral_div

section \<open>Totals of a sale\<close>

lemma num_or_cases: "num_or v d = (if v = None \<or> v = Some 0 then d else the v)"
  by (auto simp: num_or_def split: option.splits)

lemma num_or_0: "num_or v 0 = (case v of None \<Rightarrow> 0 | Some x \<Rightarrow> x)"
  by (simp add: num_or_def split: option.splits)

lemma subTotal_fold:
  "s_subTotal (calculateTotals s) = foldl js_add 0 (map (line_amount js_mul) (s_saleItems s))"
  by (simp add: calculateTotals_def Let_def foldl_map line_amount_def num_or_cases)

text \<open>A left-to-right sum of doubles is exact when every partial sum is a double.\<close>

lemma foldl_js_add_exact:
  "(\<And>n. is_double (sum_list (take n ls))) \<Longrightarrow> foldl js_add 0 ls = sum_list ls"
proof (induction ls rule: rev_induct)
  case Nil
  then show ?case by simp
next
  case (snoc x xs)
  have "is_double (sum_list (take n xs))" for n
  proof (cases "n \<le> length xs")
    case True
    then show ?thesis using snoc.prems [of n] by simp
  next
    case False
    then show ?thesis using snoc.prems [of "length xs"] by simp
  qed
  then have "foldl js_add 0 xs = sum_list xs"
    by (rule snoc.IH)
  then have "foldl js_add 0 (xs @ [x]) = js_add (sum_list xs) x"
    by simp
  moreover have "is_double (sum_list (xs @ [x]))"
    using snoc.prems [of "Suc (length xs)"] by simp
  then have "js_add (sum_list xs) x = sum_list (xs @ [x])"
    by (simp add: js_add_def is_double_def)
  ultimately show ?case
    by simp
qed

lemma line_amount_exact:
  "\<forall>item\<in>set items. is_double (line_amount (*) item)
   \<Longrightarrow> map (line_amount js_mul) items = map (line_amount (*)) items"
  by (auto simp: line_amount_def js_mul_def is_double_def)

text \<open>
  C1, as the code has it. After \<open>calculateTotals()\<close>, \<open>subTotal\<close> is the sum, taken from
  left to right in double arithmetic, of the line amounts: the item's \<open>subTotal\<close>, with
  the double product \<open>quantity \<times> unitPrice\<close> in its place where the item's \<open>subTotal\<close>
  is absent or zero (\<open>||\<close> falls back on every falsy value). \<open>totalAmount\<close> is
  \<open>(subTotal + taxAmount) - discountAmount\<close> and \<open>changeAmount\<close> is
  \<open>paidAmount - totalAmount\<close>, each operation rounded to the nearest double. When every
  line amount, every partial sum of them and the results of the three last operations
  are doubles, the three fields are the exact sum, \<open>subTotal + taxAmount -
  discountAmount\<close> and \<open>paidAmount - totalAmount\<close>. For the scenario of the
  specification with \<open>paidAmount\<close> 60 the results are 50, 53 and 7.
\<close>

theorem calculateTotals_derived_fields:
  "s_subTotal (calculateTotals s) =
     foldl js_add 0 (map (line_amount js_mul) (s_saleItems s))
   \<and> s_totalAmount (calculateTotals s) =
       js_sub (js_add (s_subTotal (calculateTotals s)) (s_taxAmount (calculateTotals s)))
              (s_discountAmount (calculateTotals s))
   \<and> s_changeAmount (calculateTotals s) =
       js_sub (s_paidAmount (calculateTotals s)) (s_totalAmount (calculateTotals s))
   \<and> ((\<forall>item\<in>set (s_saleItems s). is_double (line_amount (*) item))
        \<and> (\<forall>n. is_double (sum_list (take n (map (line_amount (*)) (s_saleItems s)))))
        \<and> is_double (sum_list (map (line_amount (*)) (s_saleItems s)) + s_taxAmount s)
        \<and> is_double (sum_list (map (line_amount (*)) (s_saleItems s)) + s_taxAmount s
                       - s_discountAmount s)
        \<and> is_double (s_paidAmount s
                       - (sum_list (map (line_amount (*)) (s_saleItems s)) + s_taxAmount s
                          - s_discountAmount s))
       \<longrightarrow> s_subTotal (calculateTotals s) = sum_list (map (line_amount (*)) (s_saleItems s))
           \<and> s_totalAmount (calculateTotals s) =
               s_subTotal (calculateTotals s) + s_taxAmount s - s_discountAmount s
           \<and> s_changeAmount (calculateTotals s) =
               s_paidAmount s - s_totalAmount (calculateTotals s))
   \<and> s_subTotal (calculateTotals (Sale_create now (scenario_data 60))) = 50
   \<and> s_totalAmount (calculateTotals (Sale_create now (scenario_data 60))) = 53
   \<and> s_changeAmount (calculateTotals (Sale_create now (scenario_data 60))) = 7"
proof -
  let ?exact = "sum_list (map (line_amount (*)) (s_saleItems s))"
  have t: "s_totalAmount (calculateTotals s) =
             js_sub (js_add (s_subTotal (calculateTotals s)) (s_taxAmount s)) (s_discountAmount s)"
    and c: "s_changeAmount (calculateTotals s) =
             js_sub (s_paidAmount s) (s_totalAmount (calculateTotals s))"
    and f: "s_taxAmount (calculateTotals s) = s_taxAmount s"
           "s_discountAmount (calculateTotals s) = s_discountAmount s"
           "s_paidAmount (calculateTotals s) = s_paidAmount s"
    by (simp_all add: calculateTotals_def Let_def)
  have e: "s_subTotal (calculateTotals s) = ?exact
           \<and> s_totalAmount (calculateTotals s) =
               s_subTotal (calculateTotals s) + s_taxAmount s - s_discountAmount s
           \<and> s_changeAmount (calculateTotals s) =
               s_paidAmount s - s_totalAmount (calculateTotals s)"
    if l: "\<forall>item\<in>set (s_saleItems s). is_double (line_amount (*) item)"
      and p: "\<forall>n. is_double (sum_list (take n (map (line_amount (*)) (s_saleItems s))))"
      and a: "is_double (?exact + s_taxAmount s)"
      and b: "is_double (?exact + s_taxAmount s - s_discountAmount s)"
      and d: "is_double (s_paidAmount s - (?exact + s_taxAmount s - s_discountAmount s))"
  proof -
    have "foldl js_add 0 (map (line_amount (*)) (s_saleItems s)) = ?exact"
      using p by (intro foldl_js_add_exact) simp
    then have sub: "s_subTotal (calculateTotals s) = ?exact"
      by (simp add: subTotal_fold line_amount_exact [OF l])
    have tot: "s_totalAmount (calculateTotals s) = ?exact + s_taxAmount s - s_discountAmount s"
      using a b by (simp add: t sub js_add_def js_sub_def is_double_def)
    have chg: "s_changeAmount (calculateTotals s) =
                 s_paidAmount s - (?exact + s_taxAmount s - s_discountAmount s)"
      using d by (simp add: c tot js_sub_def is_double_def)
    from sub tot chg show ?thesis by simp
  qed
  have sc: "s_subTotal (calculateTotals (Sale_create now (scenario_data 60))) = 50
            \<and> s_totalAmount (calculateTotals (Sale_create now (scenario_data 60))) = 53
            \<and> s_changeAmount (calculateTotals (Sale_create now (scenario_data 60))) = 7"
    by (simp add: calculateTotals_def Let_def num_or_def Sale_create_def Sale_new_def
          scenario_data_def scenario_item_def obj_or_def js_arith)
  have e': "(\<forall>item\<in>set (s_saleItems s). is_double (line_amount (*) item))
        \<and> (\<forall>n. is_double (sum_list (take n (map (line_amount (*)) (s_saleItems s)))))
        \<and> is_double (?exact + s_taxAmount s)
        \<and> is_double (?exact + s_taxAmount s - s_discountAmount s)
        \<and> is_double (s_paidAmount s - (?exact + s_taxAmount s - s_discountAmount s))
       \<longrightarrow> s_subTotal (calculateTotals s) = ?exact
           \<and> s_totalAmount (calculateTotals s) =
               s_subTotal (calculateTotals s) + s_taxAmount s - s_discountAmount s
           \<and> s_changeAmount (calculateTotals s) =
               s_paidAmount s - s_totalAmount (calculateTotals s)"
    using e by blast
  show ?thesis
    unfolding f using subTotal_fold [of s] t c e' sc by blast
qed

text \<open>
  The sale in cents: the line amounts 1 and 1.25, the partial sums 0, 1 and 2.25, and
  2.5, 2.5 and 0.5 are doubles, and the fields are 2.25, 2.5 and 0.5.
\<close>

theorem calculateTotals_derived_fields_witness:
  "s_subTotal (calculateTotals dyadic_sale) = 9 / 4
   \<and> s_totalAmount (calculateTotals dyadic_sale) = 5 / 2
   \<and> s_changeAmount (calculateTotals dyadic_sale) = 1 / 2"
proof -
  have items: "s_saleItems dyadic_sale =
      [Plain (scenario_item\<lparr> io_unitPrice := 1 / 2 \<rparr>),
       Plain (scenario_item\<lparr> io_quantity := 1, io_unitPrice := 5 / 4,
                              io_subTotal := Some (5 / 4) \<rparr>)]"
    and fields: "s_taxAmount dyadic_sale = 1 / 4" "s_discountAmount dyadic_sale = 0"
                "s_paidAmount dyadic_sale = 3"
    by (simp_all add: dyadic_sale_def Sale_create_def Sale_new_def scenario_data_def
          obj_or_def num_or_def)
  have lines: "map (line_amount (*)) (s_saleItems dyadic_sale) = [1, 5 / 4]"
    by (simp add: items line_amount_def scenario_item_def)
  have d: "is_double 0" "is_double 1" "is_double (5 / 4)" "is_double (9 / 4)"
          "is_double (5 / 2)" "is_double (1 / 2)"
    by (simp_all add: is_double_def round_double_eval)
  have l: "\<forall>item\<in>set (s_saleItems dyadic_sale). is_double (line_amount (*) item)"
    using d by (simp add: items line_amount_def scenario_item_def)
  have p: "is_double (sum_list (take n [1, 5 / 4 :: rat]))" for n
  proof (cases n)
    case 0
    then show ?thesis using d by simp
  next
    case (Suc m)
    then show ?thesis using d by (cases m) simp_all
  qed
  have a: "is_double (sum_list (map (line_amount (*)) (s_saleItems dyadic_sale))
                       + s_taxAmount dyadic_sale)"
          "is_double (sum_list (map (line_amount (*)) (s_saleItems dyadic_sale))
                       + s_taxAmount dyadic_sale - s_discountAmount dyadic_sale)"
          "is_double (s_paidAmount dyadic_sale
                       - (sum_list (map (line_amount (*)) (s_saleItems dyadic_sale))
                          + s_taxAmount dyadic_sale - s_discountAmount dyadic_sale))"
    using d by (simp_all add: lines fields)
  have p': "\<forall>n. is_double (sum_list (take n (map (line_amount (*))
                                                  (s_saleItems dyadic_sale))))"
    using p by (simp add: lines)
  from calculateTotals_derived_fields [of dyadic_sale] l p' a
  have r: "s_subTotal (calculateTotals dyadic_sale) =
             sum_list (map (line_amount (*)) (s_saleItems dyadic_sale))"
          "s_totalAmount (calculateTotals dyadic_sale) =
             s_subTotal (calculateTotals dyadic_sale) + s_taxAmount dyadic_sale
               - s_discountAmount dyadic_sale"
          "s_changeAmount (calculateTotals dyadic_sale) =
             s_paidAmount dyadic_sale - s_totalAmount (calculateTotals dyadic_sale)"
    by blast+
  have s1: "s_subTotal (calculateTotals dyadic_sale) = 9 / 4"
    unfolding r(1) by (simp add: lines)
  have s2: "s_totalAmount (calculateTotals dyadic_sale) = 5 / 2"
    unfolding r(2) s1 by (simp add: fields)
  have s3: "s_changeAmount (calculateTotals dyadic_sale) = 1 / 2"
    unfolding r(3) s2 by (simp add: fields)
  from s1 s2 s3 show ?thesis by blast
qed

text \<open>
  C1 as stated fails for an item \<open>{quantity: 2, unitPrice: 25, subTotal: 0}\<close>: its
  \<open>subTotal\<close> is present, so the claimed sum is 0, and the code computes 50. It fails
  for \<open>[{quantity: 3, unitPrice: 0.1}]\<close> too: the exact product of 3 and the double
  \<open>0.1\<close> is no double, and the code's \<open>subTotal\<close> is \<open>0.30000000000000004\<close>, that is
  \<open>5404319552844596 / 2\<^sup>5\<^sup>4\<close>.
\<close>

theorem calculateTotals_zero_subTotal_counterexample:
  "s_subTotal (calculateTotals zero_subTotal_sale) = 50
   \<and> claimed_subTotal (s_saleItems (calculateTotals zero_subTotal_sale)) = 0
   \<and> s_subTotal (calculateTotals zero_subTotal_sale)
       \<noteq> claimed_subTotal (s_saleItems (calculateTotals zero_subTotal_sale))
   \<and> round_double (1 / 10) = double_0_1
   \<and> s_subTotal (calculateTotals tenth_sale) = 5404319552844596 / 18014398509481984
   \<and> claimed_subTotal (s_saleItems (calculateTotals tenth_sale))
       = 10808639105689191 / 36028797018963968
   \<and> s_subTotal (calculateTotals tenth_sale)
       \<noteq> claimed_subTotal (s_saleItems (calculateTotals tenth_sale))"
proof -
  have z: "s_subTotal (calculateTotals zero_subTotal_sale) = 50
           \<and> claimed_subTotal (s_saleItems (calculateTotals zero_subTotal_sale)) = 0"
    by (simp add: zero_subTotal_sale_def calculateTotals_def Let_def num_or_def Sale_create_def
          Sale_new_def scenario_data_def scenario_item_def obj_or_def claimed_subTotal_def
          js_arith)
  have r: "round_double (1 / 10) = double_0_1"
    by (simp add: double_0_1_def round_double_eval)
  have m: "round_double (3 * double_0_1) = 5404319552844596 / 18014398509481984"
    by (simp add: double_0_1_def round_double_eval)
  have items: "s_saleItems (calculateTotals tenth_sale) =
      [Plain (scenario_item\<lparr> io_quantity := 3, io_unitPrice := double_0_1 \<rparr>)]"
    by (simp add: tenth_sale_def calculateTotals_def Let_def Sale_create_def Sale_new_def
          scenario_data_def obj_or_def)
  have m2: "round_double (5404319552844596 / 18014398509481984)
              = 5404319552844596 / 18014398509481984"
    by (simp add: round_double_eval)
  have items': "s_saleItems tenth_sale =
      [Plain (scenario_item\<lparr> io_quantity := 3, io_unitPrice := double_0_1 \<rparr>)]"
    using items by (simp add: calculateTotals_def Let_def)
  have "s_subTotal (calculateTotals tenth_sale) = round_double (round_double (3 * double_0_1))"
    unfolding subTotal_fold items'
    by (simp add: line_amount_def scenario_item_def js_add_def js_mul_def)
  then have t: "s_subTotal (calculateTotals tenth_sale)
                  = 5404319552844596 / 18014398509481984"
    by (simp only: m m2)
  have c: "claimed_subTotal (s_saleItems (calculateTotals tenth_sale))
             = 10808639105689191 / 36028797018963968"
    by (simp add: items claimed_subTotal_def scenario_item_def double_0_1_def)
  from z r t c show ?thesis by simp
qed

text \<open>
  C9. \<open>calculateTotals()\<close> is idempotent, and it leaves the items, \<open>taxAmount\<close>,
  \<open>discountAmount\<close>, \<open>paidAmount\<close> and every identity and metadata field as they were:
  only \<open>subTotal\<close>, \<open>totalAmount\<close> and \<open>changeAmount\<close> are written.
\<close>

theorem calculateTotals_idempotent:
  "calculateTotals (calculateTotals s) = calculateTotals s
   \<and> calculateTotals s =
       s\<lparr> s_subTotal := s_subTotal (calculateTotals s),
          s_totalAmount := s_totalAmount (calculateTotals s),
          s_changeAmount := s_changeAmount (calculateTotals s) \<rparr>
   \<and> s_saleItems (calculateTotals s) = s_saleItems s
   \<and> s_taxAmount (calculateTotals s) = s_taxAmount s
   \<and> s_discountAmount (calculateTotals s) = s_discountAmount s
   \<and> s_paidAmount (calculateTotals s) = s_paidAmount s
   \<and> s_id (calculateTotals s) = s_id s
   \<and> s_mysqlId (calculateTotals s) = s_mysqlId s
   \<and> s_saleId (calculateTotals s) = s_saleId s
   \<and> s_customerId (calculateTotals s) = s_customerId s
   \<and> s_customerContact (calculateTotals s) = s_customerContact s
   \<and> s_paymentMethod (calculateTotals s) = s_paymentMethod s
   \<and> s_saleDate (calculateTotals s) = s_saleDate s
   \<and> s_timestamp (calculateTotals s) = s_timestamp s"
  by (simp add: calculateTotals_def Let_def)

section \<open>Construction\<close>

text \<open>
  C10. \<open>Sale.create\<close> turns each missing or zero monetary field into 0 and otherwise
  keeps the caller's value, defaults \<open>saleItems\<close> to the empty list and \<open>saleDate\<close> to
  the time of construction, and sets \<open>timestamp\<close> to the clock reading whatever the
  caller supplied. No total is derived: the items of the input reach \<open>saleItems\<close> only.
\<close>

theorem Sale_create_defaults:
  "s_subTotal (Sale_create now d) = (case o_subTotal d of None \<Rightarrow> 0 | Some x \<Rightarrow> x)
   \<and> s_taxAmount (Sale_create now d) = (case o_taxAmount d of None \<Rightarrow> 0 | Some x \<Rightarrow> x)
   \<and> s_discountAmount (Sale_create now d) =
       (case o_discountAmount d of None \<Rightarrow> 0 | Some x \<Rightarrow> x)
   \<and> s_totalAmount (Sale_create now d) = (case o_totalAmount d of None \<Rightarrow> 0 | Some x \<Rightarrow> x)
   \<and> s_paidAmount (Sale_create now d) = (case o_paidAmount d of None \<Rightarrow> 0 | Some x \<Rightarrow> x)
   \<and> s_changeAmount (Sale_create now d) = (case o_changeAmount d of None \<Rightarrow> 0 | Some x \<Rightarrow> x)
   \<and> s_saleItems (Sale_create now d) = (case o_saleItems d of None \<Rightarrow> [] | Some xs \<Rightarrow> xs)
   \<and> s_saleDate (Sale_create now d) = (case o_saleDate d of None \<Rightarrow> Date now | Some t \<Rightarrow> t)
   \<and> s_timestamp (Sale_create now d) = now
   \<and> Sale_create now (d\<lparr> o_timestamp := t \<rparr>) = Sale_create now d
   \<and> Sale_create now (d\<lparr> o_saleItems := Some items \<rparr>) =
       (Sale_create now d)\<lparr> s_saleItems := items \<rparr>"
  by (simp add: Sale_create_def Sale_new_def num_or_0 obj_or_def num_or_def
           split: option.splits)

section \<open>Validation\<close>

lemma trim_Nil_iff: "(s = [] \<or> trim s = []) = (trim s = [])"
  by (auto simp: trim_def)

lemma trim_empty_iff: "trim s = [] \<longleftrightarrow> list_all is_ws s"
  by (induction s) (auto simp: trim_def list_all_iff dropWhile_eq_Nil_conv)

text \<open>
  C4. \<open>validate()\<close> checks its four rules one after the other and reports every broken
  one, in this order: \<open>saleId\<close> empty (or of white space only), \<open>saleItems\<close> empty,
  \<open>totalAmount\<close> negative, \<open>paidAmount\<close> below \<open>totalAmount\<close>. \<open>isValid\<close> holds
  exactly when there is no error, that is, when all four rules hold. When validation
  fails in \<open>createSale\<close> or \<open>updateSale\<close>, the call ends with one error whose message is
  \<open>Validation failed: \<close> and the messages joined by a comma and a space, and the store
  is unchanged.
\<close>

theorem Sale_validate_accumulates:
  "errors (Sale_validate s) =
       (if trim (s_saleId s) = [] then [''Sale ID is required''] else [])
     @ (if s_saleItems s = [] then [''Sale must have at least one item''] else [])
     @ (if s_totalAmount s < 0 then [''Total amount cannot be negative''] else [])
     @ (if s_paidAmount s < s_totalAmount s
        then [''Paid amount must be greater than or equal to total amount''] else [])
   \<and> isValid (Sale_validate s) = (errors (Sale_validate s) = [])
   \<and> isValid (Sale_validate s) =
       (trim (s_saleId s) \<noteq> [] \<and> s_saleItems s \<noteq> [] \<and> 0 \<le> s_totalAmount s
        \<and> s_totalAmount s \<le> s_paidAmount s)
   \<and> (\<not> isValid (Sale_validate (Sale_create now d)) \<longrightarrow>
        createSale now d db =
          (Inl (Error (''Validation failed: ''
                       @ join '', '' (errors (Sale_validate (Sale_create now d))))), db)
        \<and> updateSale now i d db =
          (Inl (Error (''Validation failed: ''
                       @ join '', '' (errors (Sale_validate (Sale_create now d))))), db))"
  by (auto simp: Sale_validate_def Let_def trim_Nil_iff createSale_def updateSale_def)

theorem Sale_validate_accumulates_witness:
  "\<not> isValid (Sale_validate (Sale_create 1000 all_invalid_data))
   \<and> errors (Sale_validate (Sale_create 1000 all_invalid_data)) =
       [''Sale ID is required'', ''Sale must have at least one item'',
        ''Total amount cannot be negative'',
        ''Paid amount must be greater than or equal to total amount'']
   \<and> createSale 1000 all_invalid_data empty_db =
       (Inl (Error (''Validation failed: Sale ID is required, Sale must have at least one item, Total amount cannot be negative, Paid amount must be greater than or equal to total amount'')),
        empty_db)"
proof -
  have e: "errors (Sale_validate (Sale_create 1000 all_invalid_data)) =
       [''Sale ID is required'', ''Sale must have at least one item'',
        ''Total amount cannot be negative'',
        ''Paid amount must be greater than or equal to total amount'']"
    by (simp add: Sale_validate_def Let_def Sale_create_def Sale_new_def all_invalid_data_def
          num_or_def str_or_def obj_or_def trim_def)
  have v: "\<not> isValid (Sale_validate (Sale_create 1000 all_invalid_data))"
    using Sale_validate_accumulates [of "Sale_create 1000 all_invalid_data"] e by simp
  from v Sale_validate_accumulates
           [of "Sale_create 1000 all_invalid_data" 1000 all_invalid_data empty_db]
  have "createSale 1000 all_invalid_data empty_db =
          (Inl (Error (''Validation failed: ''
                 @ join '', '' (errors (Sale_validate (Sale_create 1000 all_invalid_data))))),
           empty_db)"
    by blast
  with e v show ?thesis by simp
qed

section \<open>Validation and totals in the service\<close>

text \<open>
  C2, on the code. The scenario of the specification with \<open>paidAmount\<close> 40 and no
  \<open>totalAmount\<close> in the request: \<open>createSale\<close> validates the sale while its
  \<open>totalAmount\<close> is still the default 0, accepts it, then computes the total 53 and
  stores the sale with \<open>paidAmount\<close> 40 and \<open>changeAmount\<close> -13. The same sale fails
  \<open>validate()\<close> once its totals are computed.
\<close>

theorem createSale_persists_underpaid:
  "isValid (Sale_validate (Sale_create 1000 (scenario_data 40)))
   \<and> \<not> isValid (Sale_validate (calculateTotals (Sale_create 1000 (scenario_data 40))))
   \<and> \<not> isl (fst (createSale 1000 (scenario_data 40) empty_db))
   \<and> map o_paidAmount (sales (snd (createSale 1000 (scenario_data 40) empty_db))) = [Some 40]
   \<and> map o_totalAmount (sales (snd (createSale 1000 (scenario_data 40) empty_db))) = [Some 53]
   \<and> map o_changeAmount (sales (snd (createSale 1000 (scenario_data 40) empty_db)))
       = [Some (- 13)]"
  by (simp add: createSale_def Sale_validate_def Let_def Sale_create_def Sale_new_def
        scenario_data_def scenario_item_def num_or_def str_or_def obj_or_def trim_def is_ws_def
        calculateTotals_def insertOne_def Sale_toDocument_def empty_db_def js_arith)

text \<open>
  C3, on the code. \<open>createSale\<close> and \<open>updateSale\<close> call \<open>validate()\<close> before
  \<open>calculateTotals()\<close>, so validation judges the aggregate values of the request. A
  sale paid in full (60 for a true total of 53) whose request states \<open>totalAmount\<close> 100
  is rejected by both; a sale paid with 40 for the same items, which fails \<open>validate()\<close>
  after recalculation, is accepted by \<open>updateSale\<close> and overwrites the stored sale.
\<close>

theorem service_validates_supplied_totals:
  "isValid (Sale_validate (calculateTotals (Sale_create 1000 overstated_total_data)))
   \<and> createSale 1000 overstated_total_data empty_db =
       (Inl (Error ''Validation failed: Paid amount must be greater than or equal to total amount''),
        empty_db)
   \<and> updateSale 1000 (ObjectId 0) overstated_total_data one_sale_db =
       (Inl (Error ''Validation failed: Paid amount must be greater than or equal to total amount''),
        one_sale_db)
   \<and> \<not> isValid (Sale_validate (calculateTotals (Sale_create 1000 (scenario_data 40))))
   \<and> \<not> isl (fst (updateSale 1000 (ObjectId 0) (scenario_data 40) one_sale_db))
   \<and> map o_paidAmount (sales (snd (updateSale 1000 (ObjectId 0) (scenario_data 40) one_sale_db)))
       = [Some 40]
   \<and> map o_totalAmount (sales (snd (updateSale 1000 (ObjectId 0) (scenario_data 40) one_sale_db)))
       = [Some 53]"
  by (simp add: one_sale_db_def overstated_total_data_def createSale_def updateSale_def
        Sale_validate_def Let_def Sale_create_def Sale_new_def
        scenario_data_def scenario_item_def num_or_def str_or_def obj_or_def trim_def is_ws_def
        calculateTotals_def insertOne_def updateOne_def getSaleById_def findOne_by_id_def
        Sale_toDocument_def empty_db_def js_arith)

section \<open>List queries\<close>

lemma length_sort_by: "length (sort_by key ord ds) = length ds"
  by (simp add: sort_by_def split: SortOrder.splits)

lemma length_sort_sales: "length (sort_sales f ord ds) = length ds"
  by (cases f) (simp_all add: length_sort_by)

lemma length_sort_customers: "length (sort_customers f ord ds) = length ds"
  by (cases f) (simp_all add: length_sort_by)

lemma Math_ceil_js_div: "b \<noteq> 0 \<Longrightarrow> Math_ceil (js_div a b) = Num (of_int \<lceil>a / b\<rceil>)"
  by (simp add: js_div_def)

text \<open>
  C5, for a limit of at least 1. With \<open>page \<ge> 1\<close> and \<open>limit \<ge> 1\<close> (given or by
  default), \<open>getAllSales\<close> and \<open>getAllCustomers\<close> succeed; the page is what remains of
  the sorted matching documents after the first \<open>(page - 1) \<times> limit\<close> are skipped, cut
  to \<open>limit\<close> documents, so it never has more than \<open>limit\<close> items; the pagination
  reports \<open>page\<close>, \<open>limit\<close>, the number of documents that match the very filter of the
  query, and the ceiling of that number divided by \<open>limit\<close>. \<open>getAllCustomers\<close> has no
  filter: every document of the collection matches.
\<close>

theorem list_query_pagination:
  assumes "page = default_to (q_page opts) 1" and "limit = default_to (q_limit opts) 10"
    and "page = default_to (cq_page copts) 1" and "limit = default_to (cq_limit copts) 10"
    and "1 \<le> page" and "1 \<le> limit"
    and "matching = filter (matches (getAllSales_filter (q_startDate opts) (q_endDate opts)
                                       (q_customerId opts))) (sales db)"
  shows "getAllSales now opts db =
           Inr \<lparr> l_success = True,
                 l_data = map (Sale_fromDocument now)
                            (take (nat limit) (drop (nat ((page - 1) * limit))
                               (sort_sales (default_to (q_sortBy opts) SortTimestamp)
                                  (default_to (q_sortOrder opts) Descending) matching))),
                 l_pagination =
                   \<lparr> pg_page = page, pg_limit = limit, pg_totalCount = length matching,
                     pg_totalPages =
                       Num (of_int \<lceil>rat_of_nat (length matching) / rat_of_int limit\<rceil>) \<rparr> \<rparr>
         \<and> (\<forall>r. getAllSales now opts db = Inr r \<longrightarrow> int (length (l_data r)) \<le> limit)
         \<and> getAllCustomers now copts collection =
             Inr \<lparr> cl_success = True,
                   cl_data = map (Customer_fromDocument now)
                              (take (nat limit) (drop (nat ((page - 1) * limit))
                                 (sort_customers (default_to (cq_sortBy copts) SortCTimestamp)
                                    (default_to (cq_sortOrder copts) Descending) collection))),
                   cl_pagination =
                     \<lparr> pg_page = page, pg_limit = limit, pg_totalCount = length collection,
                       pg_totalPages =
                         Num (of_int \<lceil>rat_of_nat (length collection) / rat_of_int limit\<rceil>) \<rparr> \<rparr>
         \<and> (\<forall>r. getAllCustomers now copts collection = Inr r
                \<longrightarrow> int (length (cl_data r)) \<le> limit)"
proof -
  have skip: "\<not> (page - 1) * limit < 0"
    using assms(5,6) by (simp add: not_less)
  have lim: "limit \<noteq> 0" "\<bar>limit\<bar> = limit" "rat_of_int limit \<noteq> 0"
    using assms(6) by simp_all
  have s: "getAllSales now opts db =
           Inr \<lparr> l_success = True,
                 l_data = map (Sale_fromDocument now)
                            (take (nat limit) (drop (nat ((page - 1) * limit))
                               (sort_sales (default_to (q_sortBy opts) SortTimestamp)
                                  (default_to (q_sortOrder opts) Descending) matching))),
                 l_pagination =
                   \<lparr> pg_page = page, pg_limit = limit, pg_totalCount = length matching,
                     pg_totalPages =
                       Num (of_int \<lceil>rat_of_nat (length matching) / rat_of_int limit\<rceil>) \<rparr> \<rparr>"
    unfolding getAllSales_def Let_def assms(1)[symmetric] assms(2)[symmetric]
      assms(7)[symmetric]
    using skip lim by (simp add: cursor_skip_def cursor_limit_def Math_ceil_js_div)
  have c: "getAllCustomers now copts collection =
             Inr \<lparr> cl_success = True,
                   cl_data = map (Customer_fromDocument now)
                              (take (nat limit) (drop (nat ((page - 1) * limit))
                                 (sort_customers (default_to (cq_sortBy copts) SortCTimestamp)
                                    (default_to (cq_sortOrder copts) Descending) collection))),
                   cl_pagination =
                     \<lparr> pg_page = page, pg_limit = limit, pg_totalCount = length collection,
                       pg_totalPages =
                         Num (of_int \<lceil>rat_of_nat (length collection) / rat_of_int limit\<rceil>) \<rparr> \<rparr>"
    unfolding getAllCustomers_def Let_def assms(3)[symmetric] assms(4)[symmetric]
    using skip lim by (simp add: cursor_skip_def cursor_limit_def Math_ceil_js_div)
  have l: "int (min n (nat limit)) \<le> limit" for n :: nat
    using assms(6) by (auto simp: min_def)
  show ?thesis
    unfolding s c by (simp add: l)
qed

text \<open>
  The scenario of the specification: \<open>page=2, limit=10\<close> over 25 records gives 10
  items and \<open>totalPages\<close> 3, for sales and for customers.
\<close>

theorem list_query_pagination_witness:
  "(1::int) \<le> 2 \<and> (1::int) \<le> 10
   \<and> (case getAllSales 1000 page2_query db25 of
         Inl e \<Rightarrow> False
       | Inr r \<Rightarrow> length (l_data r) = 10
                  \<and> l_pagination r = \<lparr> pg_page = 2, pg_limit = 10, pg_totalCount = 25,
                                       pg_totalPages = Num 3 \<rparr>)
   \<and> (case getAllCustomers 1000 page2_customer_query customers25 of
         Inl e \<Rightarrow> False
       | Inr r \<Rightarrow> length (cl_data r) = 10
                  \<and> cl_pagination r = \<lparr> pg_page = 2, pg_limit = 10, pg_totalCount = 25,
                                        pg_totalPages = Num 3 \<rparr>)"
proof -
  have m: "sales db25 = filter (matches (getAllSales_filter (q_startDate page2_query)
                     (q_endDate page2_query) (q_customerId page2_query))) (sales db25)"
    by (simp add: page2_query_def getAllSales_filter_def num_or_null_def matches_def)
  have n: "length (sales db25) = 25" "length customers25 = 25"
    by (simp_all add: db25_def customers25_def del: upt_rec_numeral)
  have ceil: "\<lceil>(5::rat) / 2\<rceil> = 3"
    by (simp add: ceiling_eq_iff)
  have p: "(2::int) = default_to (q_page page2_query) 1"
          "(10::int) = default_to (q_limit page2_query) 10"
          "(2::int) = default_to (cq_page page2_customer_query) 1"
          "(10::int) = default_to (cq_limit page2_customer_query) 10"
    by (simp_all add: page2_query_def page2_customer_query_def default_to_def)
  have b: "(1::int) \<le> 2" "(1::int) \<le> 10"
    by simp_all
  note t = list_query_pagination [OF p b m, of 1000 customers25]
  show ?thesis
    unfolding t [THEN conjunct1] t [THEN conjunct2, THEN conjunct2, THEN conjunct1]
    by (simp add: n ceil length_sort_sales length_sort_customers)
qed

text \<open>
  C5 as stated, for every limit, fails at \<open>limit: 0\<close>: the cursor takes 0 as no limit,
  so the one stored sale is returned, one item more than the limit, and \<open>totalPages\<close>
  is \<open>Math.ceil(1 / 0)\<close>, which is \<open>Infinity\<close>. It fails at \<open>limit: -1\<close> too, where
  the cursor returns one document.
\<close>

theorem list_query_zero_limit_counterexample:
  "(case getAllSales 1000 zero_limit_query one_sale_db of
      Inl e \<Rightarrow> False
    | Inr r \<Rightarrow> length (l_data r) = 1 \<and> pg_limit (l_pagination r) = 0
               \<and> \<not> int (length (l_data r)) \<le> pg_limit (l_pagination r)
               \<and> pg_totalPages (l_pagination r) = Infinity)
   \<and> (case getAllSales 1000 negative_limit_query one_sale_db of
        Inl e \<Rightarrow> False
      | Inr r \<Rightarrow> length (l_data r) = 1 \<and> pg_limit (l_pagination r) = - 1
                 \<and> \<not> int (length (l_data r)) \<le> pg_limit (l_pagination r))"
  by (simp add: getAllSales_def zero_limit_query_def negative_limit_query_def default_to_def
        Let_def cursor_skip_def
        cursor_limit_def getAllSales_filter_def num_or_null_def matches_def js_div_def
        one_sale_db_def createSale_def Sale_validate_def Sale_create_def Sale_new_def
        scenario_data_def scenario_item_def num_or_def str_or_def obj_or_def trim_def is_ws_def
        calculateTotals_def insertOne_def Sale_toDocument_def empty_db_def js_arith
        length_sort_by)

section \<open>Analytics\<close>

lemma map_filter_total:
  "list_all (\<lambda>d. f d \<noteq> None) ms \<Longrightarrow> List.map_filter f ms = map (\<lambda>d. the (f d)) ms"
  by (induction ms) (auto simp: List.map_filter_simps)

lemma filters_agree: "getSalesAnalytics_matchFilter sd ed = getAllSales_filter sd ed None"
  by (simp add: getSalesAnalytics_matchFilter_def getAllSales_filter_def num_or_null_def Let_def)

lemma matches_date_range:
  "matches (getSalesAnalytics_matchFilter sd ed) d =
     ((case sd of None \<Rightarrow> True
       | Some lo \<Rightarrow> (case o_saleDate d of None \<Rightarrow> False | Some t \<Rightarrow> date_ms lo \<le> date_ms t))
      \<and> (case ed of None \<Rightarrow> True
         | Some hi \<Rightarrow> (case o_saleDate d of None \<Rightarrow> False | Some t \<Rightarrow> date_ms t \<le> date_ms hi)))"
  by (auto simp: getSalesAnalytics_matchFilter_def matches_def Let_def split: option.splits)

text \<open>Every document the service writes is complete, so a store it filled is complete.\<close>

lemma complete_doc_toDocument: "complete_doc ((Sale_toDocument s)\<lparr> o_id := i \<rparr>)"
  by (simp add: complete_doc_def Sale_toDocument_def)

lemma set_first_complete:
  "\<forall>d\<in>set ds. complete_doc d \<Longrightarrow> complete_doc (doc\<lparr> o_id := Some i \<rparr>)
   \<Longrightarrow> \<forall>d\<in>set (snd (set_first i doc ds)). complete_doc d"
  by (induction ds) (auto split: prod.splits)

lemma createSale_complete:
  "\<forall>d\<in>set (sales db). complete_doc d
   \<Longrightarrow> \<forall>d\<in>set (sales (snd (createSale now saleData db))). complete_doc d"
  by (auto simp: createSale_def Let_def insertOne_def complete_doc_toDocument)

lemma updateSale_complete:
  assumes "\<forall>d\<in>set (sales db). complete_doc d"
  shows "\<forall>d\<in>set (sales (snd (updateSale now i updateData db))). complete_doc d"
proof -
  let ?doc = "Sale_toDocument (calculateTotals (Sale_create now updateData))"
  have u: "sales (snd (updateOne db i ?doc)) = snd (set_first i ?doc (sales db))"
    by (simp add: updateOne_def split: prod.splits)
  have "snd (updateSale now i updateData db) = db
        \<or> snd (updateSale now i updateData db) = snd (updateOne db i ?doc)"
    by (auto simp: updateSale_def Let_def split: prod.splits sum.splits)
  moreover have "\<forall>d\<in>set (snd (set_first i ?doc (sales db))). complete_doc d"
    using assms by (rule set_first_complete) (rule complete_doc_toDocument)
  ultimately show ?thesis
    using assms u by auto
qed

text \<open>
  C6. Over a store of complete documents, \<open>getSalesAnalytics\<close> selects the sales with
  the filter that the list query builds for the same \<open>startDate\<close> and \<open>endDate\<close>
  (\<open>saleDate\<close> at or after \<open>startDate\<close> and at or before \<open>endDate\<close>, each bound only
  when given) and returns their number, the sum of their \<open>totalAmount\<close>, the sum of the
  lengths of their \<open>saleItems\<close>, and the mean of their \<open>totalAmount\<close> (0 when no sale
  matches).
\<close>

theorem getSalesAnalytics_aggregates:
  assumes "\<forall>d\<in>set (sales db). complete_doc d"
    and "ms = filter (matches (getAllSales_filter sd ed None)) (sales db)"
  shows "getSalesAnalytics \<lparr> aq_startDate = sd, aq_endDate = ed \<rparr> db =
           Inr \<lparr> a_success = True,
                 a_data = \<lparr> totalSales = length ms,
                            totalRevenue = (\<Sum>d\<leftarrow>ms. the (o_totalAmount d)),
                            totalItemsSold = (\<Sum>d\<leftarrow>ms. length (the (o_saleItems d))),
                            averageSaleAmount =
                              Some (if ms = [] then 0
                                    else (\<Sum>d\<leftarrow>ms. the (o_totalAmount d))
                                           / of_nat (length ms)) \<rparr> \<rparr>
         \<and> (\<forall>d. d \<in> set ms \<longleftrightarrow>
                d \<in> set (sales db)
                \<and> (\<forall>lo. sd = Some lo
                      \<longrightarrow> (\<exists>t. o_saleDate d = Some t \<and> date_ms lo \<le> date_ms t))
                \<and> (\<forall>hi. ed = Some hi
                      \<longrightarrow> (\<exists>t. o_saleDate d = Some t \<and> date_ms t \<le> date_ms hi)))"
proof -
  have c: "list_all complete_doc ms"
    using assms by (auto simp: list_all_iff)
  then have noex: "\<not> list_ex (\<lambda>d. o_saleItems d = None) ms"
    by (auto simp: list_all_iff list_ex_iff complete_doc_def)
  from c have "list_all (\<lambda>d. o_totalAmount d \<noteq> None) ms"
    by (auto simp: list_all_iff complete_doc_def)
  then have amounts: "List.map_filter o_totalAmount ms = map (\<lambda>d. the (o_totalAmount d)) ms"
    by (rule map_filter_total)
  have items: "map (\<lambda>d. length (default_to (o_saleItems d) [])) ms
             = map (\<lambda>d. length (the (o_saleItems d))) ms"
    using c by (auto simp: list_all_iff complete_doc_def default_to_def)
  have g: "group_stage ms =
     (if ms = [] then Inr []
      else Inr [\<lparr> totalSales = length ms,
                totalRevenue = (\<Sum>d\<leftarrow>ms. the (o_totalAmount d)),
                totalItemsSold = (\<Sum>d\<leftarrow>ms. length (the (o_saleItems d))),
                averageSaleAmount =
                  Some ((\<Sum>d\<leftarrow>ms. the (o_totalAmount d)) / of_nat (length ms)) \<rparr>])"
    unfolding group_stage_def Let_def amounts items using noex by simp
  have a: "getSalesAnalytics \<lparr> aq_startDate = sd, aq_endDate = ed \<rparr> db =
           Inr \<lparr> a_success = True,
                 a_data = \<lparr> totalSales = length ms,
                            totalRevenue = (\<Sum>d\<leftarrow>ms. the (o_totalAmount d)),
                            totalItemsSold = (\<Sum>d\<leftarrow>ms. length (the (o_saleItems d))),
                            averageSaleAmount =
                              Some (if ms = [] then 0
                                    else (\<Sum>d\<leftarrow>ms. the (o_totalAmount d))
                                           / of_nat (length ms)) \<rparr> \<rparr>"
    unfolding getSalesAnalytics_def Let_def filters_agree
    by (simp add: assms(2)[symmetric] g)
  have r: "d \<in> set ms \<longleftrightarrow>
             d \<in> set (sales db)
             \<and> (\<forall>lo. sd = Some lo \<longrightarrow> (\<exists>t. o_saleDate d = Some t \<and> date_ms lo \<le> date_ms t))
             \<and> (\<forall>hi. ed = Some hi \<longrightarrow> (\<exists>t. o_saleDate d = Some t \<and> date_ms t \<le> date_ms hi))"
    for d
    unfolding assms(2) filters_agree[symmetric]
    by (auto simp: matches_date_range split: option.splits)
  show ?thesis using a r by blast
qed

text \<open>
  Three sales dated 100, 200 and 300 with totals 53, 103 and 153 and with 1, 2 and 3
  items; the range from 100 to 200 takes the first two, both bounds included.
\<close>

theorem getSalesAnalytics_aggregates_witness:
  "getSalesAnalytics \<lparr> aq_startDate = Some (Date 100), aq_endDate = Some (Date 200) \<rparr>
     analytics_db =
     Inr \<lparr> a_success = True,
           a_data = \<lparr> totalSales = 2, totalRevenue = 156, totalItemsSold = 3,
                      averageSaleAmount = Some 78 \<rparr> \<rparr>"
proof -
  have d: "o_saleDate (analytics_sale n k t) = Some (Date t)"
          "o_customerId (analytics_sale n k t) = None"
          "o_saleItems (analytics_sale n k t) = Some (replicate k (Plain scenario_item))" for n k t
    by (simp_all add: analytics_sale_def Sale_toDocument_def calculateTotals_def Sale_create_def
          Sale_new_def scenario_data_def obj_or_def num_or_null_def Let_def)
  have tot: "o_totalAmount (analytics_sale n (Suc 0) t) = Some 53"
            "o_totalAmount (analytics_sale n (Suc (Suc 0)) t) = Some 103"
            "o_totalAmount (analytics_sale n (Suc (Suc (Suc 0))) t) = Some 153" for n t
    by (simp_all add: analytics_sale_def Sale_toDocument_def calculateTotals_def Sale_create_def
          Sale_new_def scenario_data_def scenario_item_def obj_or_def num_or_def Let_def
          js_arith)
  have c: "\<forall>d\<in>set (sales analytics_db). complete_doc d"
    by (simp add: analytics_db_def complete_doc_def d tot numeral_2_eq_2 numeral_3_eq_3)
  have m: "[analytics_sale 0 1 100, analytics_sale 1 2 200] =
           filter (matches (getAllSales_filter (Some (Date 100)) (Some (Date 200)) None))
             (sales analytics_db)"
    by (simp add: analytics_db_def getAllSales_filter_def num_or_null_def matches_def d)
  show ?thesis
    using getSalesAnalytics_aggregates [OF c m, THEN conjunct1]
    by (simp add: d tot numeral_2_eq_2)
qed

text \<open>
  C7. When no sale matches the date range, \<open>getSalesAnalytics\<close> succeeds and its data
  has all four fields, each 0; the average is the number 0, not \<open>null\<close>.
\<close>

theorem getSalesAnalytics_empty:
  assumes "filter (matches (getSalesAnalytics_matchFilter sd ed)) (sales db) = []"
  shows "getSalesAnalytics \<lparr> aq_startDate = sd, aq_endDate = ed \<rparr> db =
           Inr \<lparr> a_success = True,
                 a_data = \<lparr> totalSales = 0, totalRevenue = 0, totalItemsSold = 0,
                            averageSaleAmount = Some 0 \<rparr> \<rparr>"
  using assms by (simp add: getSalesAnalytics_def Let_def group_stage_def)

theorem getSalesAnalytics_empty_witness:
  "filter (matches (getSalesAnalytics_matchFilter (Some (Date 400)) (Some (Date 500))))
     (sales analytics_db) = []
   \<and> getSalesAnalytics \<lparr> aq_startDate = Some (Date 400), aq_endDate = Some (Date 500) \<rparr>
       analytics_db =
       Inr \<lparr> a_success = True,
             a_data = \<lparr> totalSales = 0, totalRevenue = 0, totalItemsSold = 0,
                        averageSaleAmount = Some 0 \<rparr> \<rparr>"
proof -
  have d: "o_saleDate (analytics_sale n k t) = Some (Date t)" for n k t
    by (simp add: analytics_sale_def Sale_toDocument_def calculateTotals_def Sale_create_def
          Sale_new_def scenario_data_def obj_or_def Let_def)
  have e: "filter (matches (getSalesAnalytics_matchFilter (Some (Date 400)) (Some (Date 500))))
             (sales analytics_db) = []"
    by (simp add: analytics_db_def getSalesAnalytics_matchFilter_def matches_def d)
  from e getSalesAnalytics_empty [OF e] show ?thesis by simp
qed

section \<open>Documents and entities\<close>

lemma num_or_null_normal: "v \<noteq> Some 0 \<Longrightarrow> num_or_null v = v"
  by (auto simp: num_or_null_def split: option.splits)

lemma str_or_null_normal: "v \<noteq> Some [] \<Longrightarrow> str_or_null v = v"
  by (auto simp: str_or_null_def split: option.splits)

lemma num_or_Some: "x \<noteq> 0 \<Longrightarrow> num_or (Some x) d = x"
  by (simp add: num_or_def)

lemma num_or_Some_0: "num_or (Some x) 0 = x"
  by (simp add: num_or_def)

lemma str_or_Some_Nil: "str_or (Some x) [] = x"
  by (simp add: str_or_def)

lemma Customer_roundtrip:
  "Customer_normal c \<Longrightarrow> Customer_fromDocument now (Customer_toDocument c) = c\<lparr> c_id := None \<rparr>"
  by (simp add: Customer_normal_def Customer_fromDocument_def Customer_toDocument_def
        Customer_new_def num_or_null_normal str_or_null_normal num_or_Some str_or_Some_Nil
        obj_or_def obj_or_null_def)

lemma Supplier_roundtrip:
  "Supplier_normal p \<Longrightarrow> Supplier_fromDocument now (Supplier_toDocument p) = p\<lparr> p_id := None \<rparr>"
  by (simp add: Supplier_normal_def Supplier_fromDocument_def Supplier_toDocument_def
        Supplier_new_def num_or_null_normal num_or_Some str_or_Some_Nil
        obj_or_def obj_or_null_def)

lemma Sale_roundtrip:
  "Sale_normal s \<Longrightarrow> Sale_fromDocument now (Sale_toDocument s) =
      s\<lparr> s_id := None, s_saleItems := map item_toDocument (s_saleItems s) \<rparr>"
  by (simp add: Sale_normal_def Sale_fromDocument_def Sale_toDocument_def
        Sale_new_def num_or_null_normal num_or_Some num_or_Some_0 str_or_Some_Nil
        obj_or_def obj_or_null_def)

lemma map_item_toDocument_plain:
  "\<forall>i\<in>set xs. \<exists>obj. i = Plain obj \<Longrightarrow> map item_toDocument xs = xs"
  by (induction xs) auto

text \<open>The constructors build normal entities, and \<open>calculateTotals\<close> keeps a sale normal.\<close>

lemma Customer_new_normal: "now \<noteq> 0 \<Longrightarrow> Customer_normal (Customer_new now d)"
  by (auto simp: Customer_normal_def Customer_new_def num_or_null_def str_or_null_def num_or_def
       split: option.splits)

lemma Supplier_new_normal: "now \<noteq> 0 \<Longrightarrow> Supplier_normal (Supplier_new now d)"
  by (auto simp: Supplier_normal_def Supplier_new_def num_or_null_def num_or_def
       split: option.splits)

lemma Sale_new_normal: "now \<noteq> 0 \<Longrightarrow> Sale_normal (Sale_new now d)"
  by (auto simp: Sale_normal_def Sale_new_def num_or_null_def num_or_def
       split: option.splits)

lemma calculateTotals_normal: "Sale_normal (calculateTotals s) = Sale_normal s"
  by (simp add: Sale_normal_def calculateTotals_def Let_def)

text \<open>
  C8, as the code has it. For a Customer, a Supplier and a Sale whose fields are as the
  constructor leaves them, \<open>fromDocument(toDocument(entity))\<close> reproduces every attribute
  but \<open>id\<close>, which \<open>toDocument\<close> does not emit and which comes back \<open>null\<close>. In a Sale,
  an item that is a \<open>SaleItem\<close> instance comes back as its plain document; a sale whose
  items are plain objects gets its items back as they were.
\<close>

theorem document_roundtrip:
  assumes "Customer_normal c" and "Supplier_normal p" and "Sale_normal s"
  shows "Customer_fromDocument now (Customer_toDocument c) = c\<lparr> c_id := None \<rparr>
       \<and> Supplier_fromDocument now (Supplier_toDocument p) = p\<lparr> p_id := None \<rparr>
       \<and> Sale_fromDocument now (Sale_toDocument s) =
             s\<lparr> s_id := None, s_saleItems := map item_toDocument (s_saleItems s) \<rparr>
       \<and> ((\<forall>i\<in>set (s_saleItems s). \<exists>obj. i = Plain obj) \<longrightarrow>
            Sale_fromDocument now (Sale_toDocument s) = s\<lparr> s_id := None \<rparr>)"
  using assms
  by (simp add: Customer_roundtrip Supplier_roundtrip Sale_roundtrip map_item_toDocument_plain)

text \<open>
  Entities that were never stored have no \<open>id\<close>: for them the round trip is the
  identity.
\<close>

theorem document_roundtrip_witness:
  "Customer_normal new_customer \<and> Supplier_normal new_supplier
   \<and> Sale_normal (calculateTotals (Sale_create 1000 (scenario_data 60)))
   \<and> Customer_fromDocument 2000 (Customer_toDocument new_customer) = new_customer
   \<and> Supplier_fromDocument 2000 (Supplier_toDocument new_supplier) = new_supplier
   \<and> Sale_fromDocument 2000
       (Sale_toDocument (calculateTotals (Sale_create 1000 (scenario_data 60))))
       = calculateTotals (Sale_create 1000 (scenario_data 60))"
proof -
  let ?s = "calculateTotals (Sale_create 1000 (scenario_data 60))"
  have c: "Customer_normal new_customer"
    unfolding new_customer_def by (rule Customer_new_normal) simp
  have p: "Supplier_normal new_supplier"
    unfolding new_supplier_def by (rule Supplier_new_normal) simp
  have s: "Sale_normal ?s"
    unfolding calculateTotals_normal Sale_create_def by (rule Sale_new_normal) simp
  have ids: "c_id new_customer = None" "p_id new_supplier = None" "s_id ?s = None"
    by (simp_all add: new_customer_def new_supplier_def Customer_new_def Supplier_new_def
          calculateTotals_def Sale_create_def Sale_new_def obj_or_null_def Let_def)
  have items: "\<forall>i\<in>set (s_saleItems ?s). \<exists>obj. i = Plain obj"
    by (simp add: calculateTotals_def Sale_create_def Sale_new_def obj_or_def Let_def
          scenario_data_def)
  have e: "x\<lparr> c_id := None \<rparr> = x" if "c_id x = None" for x :: Customer
    using that by (cases x) simp
  have f: "x\<lparr> p_id := None \<rparr> = x" if "p_id x = None" for x :: Supplier
    using that by (cases x) simp
  have g: "x\<lparr> s_id := None \<rparr> = x" if "s_id x = None" for x :: Sale
    using that by (cases x) simp
  from document_roundtrip [OF c p s, of 2000] items
  have "Customer_fromDocument 2000 (Customer_toDocument new_customer)
          = new_customer\<lparr> c_id := None \<rparr>"
       "Supplier_fromDocument 2000 (Supplier_toDocument new_supplier)
          = new_supplier\<lparr> p_id := None \<rparr>"
       "Sale_fromDocument 2000 (Sale_toDocument ?s) = ?s\<lparr> s_id := None \<rparr>"
    by blast+
  with c p s show ?thesis
    by (simp add: e [OF ids(1)] f [OF ids(2)] g [OF ids(3)])
qed

text \<open>
  C8 as stated fails for an entity that was read from the store: the customer built
  from the stored document with \<open>_id\<close> 7 has \<open>id\<close> 7, and after the round trip its
  \<open>id\<close> is \<open>null\<close>.
\<close>

theorem document_roundtrip_id_counterexample:
  "c_id persisted_customer = Some (ObjectId 7)
   \<and> c_id (Customer_fromDocument 2000 (Customer_toDocument persisted_customer)) = None
   \<and> Customer_fromDocument 2000 (Customer_toDocument persisted_customer) \<noteq> persisted_customer"
proof -
  have a: "c_id persisted_customer = Some (ObjectId 7)"
    by (simp add: persisted_customer_def Customer_fromDocument_def Customer_new_def
          stored_customer_def obj_or_null_def)
  have b: "c_id (Customer_fromDocument 2000 (Customer_toDocument persisted_customer)) = None"
    by (simp add: Customer_fromDocument_def Customer_new_def Customer_toDocument_def
          obj_or_null_def)
  from a b show ?thesis by auto
qed

end
